theory Spec2Isabelle
  imports Complex_Main "HOL-Library.Sublist"
begin

section \<open>JavaScript values, errors and strings\<close>

text \<open>
  The server is TypeScript run as JavaScript. A thrown value is an error object, of which
  the program reads \<open>name\<close>, \<open>message\<close> and (for file-system errors) \<open>code\<close>.
\<close>

datatype js_error = JsError (err_name: string) (err_message: string) (err_code: "string option")

definition Error :: "string \<Rightarrow> js_error" where
  \<comment> \<open>\<open>new Error(msg)\<close>\<close>
  "Error msg = JsError ''Error'' msg None"

definition TypeError :: "string \<Rightarrow> js_error" where
  "TypeError msg = JsError ''TypeError'' msg None"

definition ReferenceError :: "string \<Rightarrow> js_error" where
  "ReferenceError msg = JsError ''ReferenceError'' msg None"

text \<open>
  Tool arguments, and the content of a completion, reach the handler as parsed JSON of
  unknown type. \<open>Undefined\<close> is the value of a property that is not there. The program
  never computes with a number: it only tests it for truthiness and converts it to a
  string, so a number is represented by the text that \<open>String\<close> gives for it (\<open>42\<close>,
  \<open>0.5\<close>, \<open>1e+21\<close>). JSON has no \<open>NaN\<close>, and both zeros print as \<open>0\<close>, so a number is
  falsy exactly when that text is \<open>0\<close>.
\<close>

datatype jsval =
    Undefined
  | Null
  | Bool bool
  | Num string
  | Str string
  | Arr "jsval list"
  | Obj "(string \<times> jsval) list"

fun truthy :: "jsval \<Rightarrow> bool" where
  "truthy Undefined = False"
| "truthy Null = False"
| "truthy (Bool b) = b"
| "truthy (Num n) = (n \<noteq> ''0'')"
| "truthy (Str s) = (s \<noteq> [])"
| "truthy (Arr xs) = True"
| "truthy (Obj kvs) = True"

fun is_string :: "jsval \<Rightarrow> bool" where
  \<comment> \<open>\<open>typeof v === "string"\<close>\<close>
  "is_string (Str s) = True"
| "is_string v = False"

definition digit :: "nat \<Rightarrow> char" where
  "digit n = ''0123456789'' ! n"

fun show_nat :: "nat \<Rightarrow> string" where
  \<comment> \<open>a status code or the constant 15000 in a template string: plain decimal\<close>
  "show_nat n = (if n < 10 then [digit n] else show_nat (n div 10) @ [digit (n mod 10)])"

declare show_nat.simps [simp del]

fun join :: "string \<Rightarrow> string list \<Rightarrow> string" where
  \<comment> \<open>\<open>Array.prototype.join\<close> on an array of strings\<close>
  "join sep [] = []"
| "join sep [x] = x"
| "join sep (x # y # ys) = x @ sep @ join sep (y # ys)"

text \<open>
  \<open>String(v)\<close>. An array is joined with commas, \<open>null\<close> elements printing as nothing; a
  plain object prints as \<open>[object Object]\<close>, unless the JSON gave it a property
  \<open>toString\<close> of its own, which is not callable: then the conversion throws a TypeError.
\<close>

fun stringable :: "jsval \<Rightarrow> bool" where
  "stringable (Arr xs) = list_all stringable xs"
| "stringable (Obj kvs) = (''toString'' \<notin> fst ` set kvs)"
| "stringable v = True"

fun to_string :: "jsval \<Rightarrow> string" where
  "to_string Undefined = ''undefined''"
| "to_string Null = ''null''"
| "to_string (Bool b) = (if b then ''true'' else ''false'')"
| "to_string (Num n) = n"
| "to_string (Str s) = s"
| "to_string (Arr xs) =
     join '','' (map (\<lambda>x. if x = Null \<or> x = Undefined then [] else to_string x) xs)"
| "to_string (Obj kvs) = ''[object Object]''"

definition String_js :: "jsval \<Rightarrow> js_error + string" where
  "String_js v =
     (if stringable v then Inr (to_string v)
      else Inl (TypeError ''Cannot convert object to primitive value''))"

text \<open>
  A string is the list of its code units, each an 8-bit character: the strings modelled
  are those whose code units are all below 256. On these \<open>toLowerCase\<close> works unit by
  unit: the capitals \<open>A\<close> to \<open>Z\<close> (65 to 90) and the Latin-1 capitals U+00C0 to U+00DE
  (192 to 222) other than the multiplication sign U+00D7 (215) move up by 32; every
  other unit, the sharp s U+00DF and the micro sign U+00B5 included, stays.
\<close>

definition lower_char :: "char \<Rightarrow> char" where
  "lower_char c =
     (let n = of_char c :: nat in
      if (65 \<le> n \<and> n \<le> 90) \<or> (192 \<le> n \<and> n \<le> 222 \<and> n \<noteq> 215)
      then char_of (n + 32)
      else c)"

definition toLowerCase :: "string \<Rightarrow> string" where
  "toLowerCase s = map lower_char s"

definition endsWith :: "string \<Rightarrow> string \<Rightarrow> bool" where
  \<comment> \<open>\<open>s.endsWith(suf)\<close>\<close>
  "endsWith s suf =
     (length suf \<le> length s \<and> drop (length s - length suf) s = suf)"

fun includes_js :: "string \<Rightarrow> string \<Rightarrow> bool" where
  \<comment> \<open>\<open>s.includes(q)\<close>: \<open>q\<close> occurs in \<open>s\<close> at some position\<close>
  "includes_js [] q = (q = [])"
| "includes_js (c # s) q = (take (length q) (c # s) = q \<or> includes_js s q)"

section \<open>Data model\<close>

text \<open>
  Catalog entries and response bodies are taken at the types their TypeScript interfaces
  declare (the program casts the parsed JSON to them unchecked). \<open>interface
  OpenRouterModel\<close> has the fields \<open>id\<close> and \<open>name\<close>, both strings.
\<close>

record OpenRouterModel =
  model_id :: string
  model_name :: string

text \<open>
  \<open>interface OpenRouterResponse\<close>: every field may be missing. The completion path reads
  \<open>json.choices?.[0]?.message?.content\<close>, so a choice may lack its message and a message
  its content (then \<open>Undefined\<close>). The content is declared a string, but the handler only
  tests it for truthiness and hands it on as it came, so it is kept as a value of unknown
  type.
\<close>

record Message =
  content :: jsval

record Choice =
  message :: "Message option"

record ErrorBody =
  error_message :: string
  error_code :: "int option"

record OpenRouterResponse =
  data :: "OpenRouterModel list option"
  choices :: "Choice list option"
  error :: "ErrorBody option"

text \<open>
  An HTTP response, as far as the program looks at it: the status line, the
  \<open>Retry-After\<close> header as \<open>headers.get\<close> returns it, and what \<open>response.json()\<close>
  settles to (the parsed body, or the error it throws on a body that is not JSON).
\<close>

record Response =
  status :: nat
  statusText :: string
  retryAfter :: "string option"
  json :: "js_error + OpenRouterResponse"

definition ok :: "Response \<Rightarrow> bool" where
  "ok r = (200 \<le> status r \<and> status r \<le> 299)"

text \<open>
  A call of \<open>fetch\<close> resolves with a response or rejects with an error: a network
  failure, or the abort of the 30-second timer, whose error is named \<open>AbortError\<close>.
\<close>

datatype fetch_outcome =
    Resolves Response
  | Rejects js_error

text \<open>
  The text of the cache file is represented by what \<open>JSON.parse\<close> does with it: it
  throws a SyntaxError (which has no \<open>code\<close>), or it returns the stored value
  (\<open>None\<close> is \<open>null\<close>). \<open>JSON.stringify\<close> of a model list is a text that parses back
  to that list.
\<close>

datatype json_text =
    Garbage string
  | Json "OpenRouterModel list option"

definition SyntaxError :: "string \<Rightarrow> js_error" where
  "SyntaxError msg = JsError ''SyntaxError'' msg None"

definition JSON_parse :: "json_text \<Rightarrow> js_error + OpenRouterModel list option" where
  "JSON_parse t = (case t of Garbage msg \<Rightarrow> Inl (SyntaxError msg) | Json v \<Rightarrow> Inr v)"

definition JSON_stringify :: "OpenRouterModel list \<Rightarrow> json_text" where
  "JSON_stringify models = Json (Some models)"

text \<open>
  The cache file: absent (\<open>fs.stat\<close> throws \<open>ENOENT\<close>), not accessible (\<open>fs.stat\<close>
  throws another error), or present with its modification time in milliseconds and what
  \<open>fs.readFile\<close> gives.
\<close>

datatype cache_file =
    Absent
  | Inaccessible js_error
  | Present (mtimeMs: real) (readFile: "js_error + json_text")

datatype event =
    Fetch string
  | Sleep nat
  | ConsoleError
  | Unlink
  | WriteFile

text \<open>
  What a handler run sees and changes: the cache file, the clock (\<open>Date.now()\<close> in the
  cache read, and the time a later write stamps on the file), whether \<open>fs.unlink\<close> and
  \<open>fs.writeFile\<close> succeed, the outcome of the k-th call of \<open>fetch\<close>, and the trace of
  effects so far.
\<close>

record world =
  cache :: cache_file
  now :: real
  write_time :: real
  unlink_ok :: bool
  write_ok :: bool
  net :: "nat \<Rightarrow> fetch_outcome"
  trace :: "event list"

definition emit :: "event \<Rightarrow> world \<Rightarrow> world" where
  "emit e w = w\<lparr>trace := trace w @ [e]\<rparr>"

section \<open>Input validation\<close>

definition MAX_PROMPT_LENGTH :: nat where
  "MAX_PROMPT_LENGTH = 15000"

definition js_length :: "jsval \<Rightarrow> nat" where
  \<comment> \<open>\<open>v.length\<close>, read only where \<open>v\<close> is a string\<close>
  "js_length v = (case v of Str s \<Rightarrow> length s | _ \<Rightarrow> 0)"

definition validateInput :: "jsval \<Rightarrow> jsval \<Rightarrow> js_error + unit" where
  "validateInput modelId prompt =
     (if \<not> truthy modelId \<or> \<not> is_string modelId \<or> js_length modelId > 255 then
        Inl (Error ''Invalid or missing modelId'')
      else if \<not> truthy prompt \<or> \<not> is_string prompt \<or> js_length prompt > MAX_PROMPT_LENGTH then
        Inl (Error (''Prompt must be a string between 1 and '' @ show_nat MAX_PROMPT_LENGTH
                    @ '' characters''))
      else Inr ())"

section \<open>The model cache\<close>

definition CACHE_TTL :: real where
  "CACHE_TTL = 5 * 60 * 1000"

definition ENOENT :: js_error where
  "ENOENT = JsError ''Error'' ''ENOENT: no such file or directory'' (Some ''ENOENT'')"

definition unlink :: "world \<Rightarrow> world" where
  \<comment> \<open>\<open>try { await fs.unlink(CACHE_FILE); } catch {}\<close>\<close>
  "unlink w =
     (let w1 = emit Unlink w in if unlink_ok w1 then w1\<lparr>cache := Absent\<rparr> else w1)"

definition cache_catch :: "js_error \<Rightarrow> world \<Rightarrow> world" where
  \<comment> \<open>the \<open>catch\<close> block of \<open>getCachedModels\<close>\<close>
  "cache_catch e w =
     (if err_code e \<noteq> Some ''ENOENT'' then unlink (emit ConsoleError w) else w)"

definition getCachedModels :: "world \<Rightarrow> OpenRouterModel list option \<times> world" where
  "getCachedModels w =
     (case cache w of
        Absent \<Rightarrow> (None, cache_catch ENOENT w)
      | Inaccessible e \<Rightarrow> (None, cache_catch e w)
      | Present mtime rd \<Rightarrow>
          if now w - mtime < CACHE_TTL then
            (case rd of
               Inl e \<Rightarrow> (None, cache_catch e w)
             | Inr txt \<Rightarrow>
                 (case JSON_parse txt of
                    Inl e \<Rightarrow> (None, cache_catch e w)
                  | Inr v \<Rightarrow> (v, w)))
          else (None, w))"

definition setCachedModels :: "OpenRouterModel list \<Rightarrow> world \<Rightarrow> world" where
  "setCachedModels models w =
     (let w1 = emit WriteFile w in
      if write_ok w1 then w1\<lparr>cache := Present (write_time w1) (Inr (JSON_stringify models))\<rparr>
      else emit ConsoleError w1)"

section \<open>Resilient fetch\<close>

definition retry_after_or_10 :: "Response \<Rightarrow> string" where
  \<comment> \<open>\<open>response.headers.get("Retry-After") || "10"\<close>: an empty header value is falsy too\<close>
  "retry_after_or_10 response =
     (case retryAfter response of
        None \<Rightarrow> ''10''
      | Some v \<Rightarrow> if v = [] then ''10'' else v)"

definition rate_limit_error :: "Response \<Rightarrow> js_error" where
  "rate_limit_error response =
     Error (''Rate limited by OpenRouter. Please wait '' @ retry_after_or_10 response
            @ '' seconds.'')"

text \<open>
  The \<open>catch\<close> block of the retry loop. Its condition is
  \<open>attempt === retries || error.name === "AbortError" || response?.status === 429\<close>.
  The \<open>const response\<close> is declared inside the \<open>try\<close> block and is not in scope here,
  and no other binding of that name is visible, so when the first two disjuncts are false
  the third is evaluated and throws a ReferenceError: the block never reaches the backoff
  that follows the condition. The result is the error that leaves the function.
\<close>

definition catch_block :: "nat \<Rightarrow> nat \<Rightarrow> js_error \<Rightarrow> js_error" where
  "catch_block retries attempt e =
     (if attempt = retries \<or> err_name e = ''AbortError'' then e
      else ReferenceError ''response is not defined'')"

text \<open>
  The body of the \<open>for\<close> loop, from \<open>attempt\<close> on. Each attempt calls \<open>fetch\<close> once; a
  backoff asks \<open>setTimeout\<close> for \<open>Math.pow(2, attempt) * 1000\<close> milliseconds.
\<close>

function for_attempt ::
  "string \<Rightarrow> nat \<Rightarrow> nat \<Rightarrow> world \<Rightarrow> (js_error + Response) \<times> world" where
  "for_attempt url retries attempt w =
     (if attempt \<le> retries then
        (case net w attempt of
           Resolves response \<Rightarrow>
             if status response = 429 then
               (Inl (catch_block retries attempt (rate_limit_error response)),
                emit (Fetch url) w)
             else if status response \<ge> 500 \<and> attempt < retries then
               for_attempt url retries (attempt + 1)
                 (emit (Sleep (2 ^ attempt * 1000)) (emit (Fetch url) w))
             else (Inr response, emit (Fetch url) w)
         | Rejects e \<Rightarrow> (Inl (catch_block retries attempt e), emit (Fetch url) w))
      else (Inl (Error ''Fetch failed after retries''), w))"
  by pat_completeness auto
termination
  by (relation "measure (\<lambda>(url, retries, attempt, w). Suc retries - attempt)") auto

declare for_attempt.simps [simp del]

definition fetchWithRetry :: "string \<Rightarrow> nat \<Rightarrow> world \<Rightarrow> (js_error + Response) \<times> world" where
  "fetchWithRetry url retries w = for_attempt url retries 0 w"

text \<open>
  The earlier variant of the server has a wrapper of the same name that makes one attempt:
  a 429 throws the rate-limit error, with no \<open>catch\<close> in the way.
\<close>

definition fetchWithRetry_single :: "string \<Rightarrow> world \<Rightarrow> (js_error + Response) \<times> world" where
  "fetchWithRetry_single url w =
     (case net w 0 of
        Resolves response \<Rightarrow>
          if status response = 429 then (Inl (rate_limit_error response), emit (Fetch url) w)
          else (Inr response, emit (Fetch url) w)
      | Rejects e \<Rightarrow> (Inl e, emit (Fetch url) w))"

section \<open>Tool dispatch\<close>

record CallToolRequest =
  name :: string
  arguments :: "(string \<rightharpoonup> jsval) option"

text \<open>
  A result \<open>{ content: [{ type: "text", text }], isError? }\<close>. The \<open>text\<close> is whatever
  value the handler puts there; the protocol wants a string.
\<close>

record CallToolResult =
  isError :: bool
  result_text :: jsval

definition arg :: "(string \<rightharpoonup> jsval) option \<Rightarrow> string \<Rightarrow> jsval" where
  \<comment> \<open>\<open>args?.key\<close>\<close>
  "arg args k =
     (case args of
        None \<Rightarrow> Undefined
      | Some m \<Rightarrow> (case m k of None \<Rightarrow> Undefined | Some v \<Rightarrow> v))"

definition MODELS_URL :: string where
  "MODELS_URL = ''https://openrouter.ai/api/v1/models''"

definition COMPLETIONS_URL :: string where
  "COMPLETIONS_URL = ''https://openrouter.ai/api/v1/chat/completions''"

definition filterModels ::
  "(string \<rightharpoonup> jsval) option \<Rightarrow> OpenRouterModel list \<Rightarrow> js_error + OpenRouterModel list" where
  "filterModels args models =
     (let filteredModels =
            (if truthy (arg args ''free'')
             then filter (\<lambda>m. endsWith (model_id m) '':free'') models
             else models)
      in if truthy (arg args ''query'') then
           (case String_js (arg args ''query'') of
              Inl e \<Rightarrow> Inl e
            | Inr s \<Rightarrow>
                Inr (filter (\<lambda>m. includes_js (toLowerCase (model_id m)) (toLowerCase s)
                                \<or> includes_js (toLowerCase (model_name m)) (toLowerCase s))
                       filteredModels))
         else Inr filteredModels)"

definition header :: string where
  "header = ''| Model ID | Tier | Name |\<newline>| :--- | :--- | :--- |''"

definition tier :: "OpenRouterModel \<Rightarrow> string" where
  "tier m = (if endsWith (model_id m) '':free'' then ''Free'' else ''Paid'')"

definition row :: "OpenRouterModel \<Rightarrow> string" where
  "row m = ''| `'' @ model_id m @ ''` | '' @ tier m @ '' | '' @ model_name m @ '' |''"

definition render :: "OpenRouterModel list \<Rightarrow> string" where
  "render filteredModels =
     (if length filteredModels > 0
      then header @ ''\<newline>'' @ join ''\<newline>'' (map row filteredModels)
      else ''No models found matching criteria.'')"

definition listing ::
  "(string \<rightharpoonup> jsval) option \<Rightarrow> OpenRouterModel list \<Rightarrow> js_error + jsval" where
  \<comment> \<open>filter, then format; the text of the result is a template string\<close>
  "listing args models =
     (case filterModels args models of
        Inl e \<Rightarrow> Inl e
      | Inr filteredModels \<Rightarrow> Inr (Str (render filteredModels)))"

definition acquire_models ::
  "(string \<rightharpoonup> jsval) option \<Rightarrow> world \<Rightarrow> (js_error + OpenRouterModel list) \<times> world" where
  \<comment> \<open>the first half of \<open>list_models\<close>: the cache, or the catalog endpoint on a miss\<close>
  "acquire_models args w =
     (case (if truthy (arg args ''forceRefresh'') then (None, w) else getCachedModels w) of
        (Some models, w1) \<Rightarrow> (Inr models, w1)
      | (None, w1) \<Rightarrow>
          (case fetchWithRetry MODELS_URL 2 w1 of
             (Inl e, w2) \<Rightarrow> (Inl e, w2)
           | (Inr response, w2) \<Rightarrow>
               if \<not> ok response then
                 (Inl (Error (''OpenRouter API error: '' @ show_nat (status response) @ '' ''
                              @ statusText response)), w2)
               else
                 (case json response of
                    Inl e \<Rightarrow> (Inl e, w2)
                  | Inr body \<Rightarrow>
                      (let models = (case data body of None \<Rightarrow> [] | Some d \<Rightarrow> d)
                       in (Inr models, setCachedModels models w2)))))"

definition list_models ::
  "(string \<rightharpoonup> jsval) option \<Rightarrow> world \<Rightarrow> (js_error + jsval) \<times> world" where
  "list_models args w =
     (case acquire_models args w of
        (Inl e, w1) \<Rightarrow> (Inl e, w1)
      | (Inr models, w1) \<Rightarrow> (listing args models, w1))"

definition upstream_message :: "Response \<Rightarrow> string" where
  \<comment> \<open>the message of a non-2xx completion response\<close>
  "upstream_message response =
     (let message = ''HTTP error '' @ show_nat (status response) in
      case json response of
        Inl e \<Rightarrow> message
      | Inr errorJson \<Rightarrow>
          (case error errorJson of
             None \<Rightarrow> message
           | Some err \<Rightarrow> if error_message err = [] then message else error_message err))"

definition first_content :: "OpenRouterResponse \<Rightarrow> jsval" where
  \<comment> \<open>\<open>json.choices?.[0]?.message?.content\<close>\<close>
  "first_content body =
     (case choices body of
        None \<Rightarrow> Undefined
      | Some [] \<Rightarrow> Undefined
      | Some (c # cs) \<Rightarrow> (case message c of None \<Rightarrow> Undefined | Some m \<Rightarrow> content m))"

definition completion_text :: "OpenRouterResponse \<Rightarrow> js_error + jsval" where
  \<comment> \<open>the presence check and the \<open>text\<close> of the result: the content, unconverted\<close>
  "completion_text body =
     (if \<not> truthy (first_content body)
      then Inl (Error ''Invalid response from OpenRouter: Missing content'')
      else Inr (first_content body))"

definition prompt_tool ::
  "(string \<rightharpoonup> jsval) option \<Rightarrow> world \<Rightarrow> (js_error + jsval) \<times> world" where
  "prompt_tool args w =
     (case args of
        None \<Rightarrow>
          (Inl (TypeError
             ''Cannot destructure property 'modelId' of 'args' as it is undefined.''), w)
      | Some m \<Rightarrow>
          (case validateInput (arg args ''modelId'') (arg args ''prompt'') of
             Inl e \<Rightarrow> (Inl e, w)
           | Inr u \<Rightarrow>
               (case fetchWithRetry COMPLETIONS_URL 2 w of
                  (Inl e, w1) \<Rightarrow> (Inl e, w1)
                | (Inr response, w1) \<Rightarrow>
                    if \<not> ok response then
                      (Inl (Error (''OpenRouter API Error: '' @ upstream_message response)), w1)
                    else
                      (case json response of
                         Inl e \<Rightarrow> (Inl e, w1)
                       | Inr body \<Rightarrow> (completion_text body, w1)))))"

text \<open>
  The handler. Every statement of it that can throw stands inside its \<open>try\<close> block, whose
  outcome is \<open>tool_body\<close>: \<open>Inr\<close> the \<open>text\<close> of the object a tool returns, \<open>Inl\<close> the
  error thrown. The \<open>catch\<close> block turns the error into a result; reading the \<open>message\<close>
  of an error object does not throw.
\<close>

definition tool_body :: "CallToolRequest \<Rightarrow> world \<Rightarrow> (js_error + jsval) \<times> world" where
  \<comment> \<open>the \<open>try\<close> block of the handler\<close>
  "tool_body request w =
     (if name request = ''list_models'' then list_models (arguments request) w
      else if name request = ''prompt'' then prompt_tool (arguments request) w
      else (Inl (Error (''Unknown tool: '' @ name request)), w))"

definition catch_result :: "js_error \<Rightarrow> CallToolResult" where
  \<comment> \<open>the \<open>catch\<close> block of the handler\<close>
  "catch_result e = \<lparr>isError = True, result_text = Str (''Error: '' @ err_message e)\<rparr>"

definition callTool :: "CallToolRequest \<Rightarrow> world \<Rightarrow> CallToolResult \<times> world" where
  "callTool request w =
     (case tool_body request w of
        (Inr t, w1) \<Rightarrow> (\<lparr>isError = False, result_text = t\<rparr>, w1)
      | (Inl e, w1) \<Rightarrow> (catch_result e, w1))"

section \<open>The standalone server\<close>

text \<open>
  \<open>index.ts\<close> is the first variant of the server: no cache, no retry, no validation, one
  call of \<open>fetch\<close> per request, and the same \<open>try\<close> and \<open>catch\<close> around both tools. Its
  bodies are typed \<open>any\<close>; they are taken at the shape of \<open>OpenRouterResponse\<close>. The
  filters are the same code as above. A listing is printed with \<open>JSON.stringify\<close>,
  which is left as the parameter \<open>stringify\<close>.
\<close>

definition index_list_models ::
  "(OpenRouterModel list \<Rightarrow> string) \<Rightarrow> (string \<rightharpoonup> jsval) option \<Rightarrow> world
     \<Rightarrow> (js_error + jsval) \<times> world" where
  "index_list_models stringify args w =
     (case net w 0 of
        Rejects e \<Rightarrow> (Inl e, emit (Fetch MODELS_URL) w)
      | Resolves response \<Rightarrow>
          (case json response of
             Inl e \<Rightarrow> (Inl e, emit (Fetch MODELS_URL) w)
           | Inr body \<Rightarrow>
               (case filterModels args (case data body of None \<Rightarrow> [] | Some d \<Rightarrow> d) of
                  Inl e \<Rightarrow> (Inl e, emit (Fetch MODELS_URL) w)
                | Inr models \<Rightarrow> (Inr (Str (stringify models)), emit (Fetch MODELS_URL) w))))"

definition index_content :: "OpenRouterResponse \<Rightarrow> js_error + jsval" where
  \<comment> \<open>\<open>json.choices[0].message.content\<close>, with no optional chaining\<close>
  "index_content body =
     (case choices body of
        None \<Rightarrow> Inl (TypeError ''Cannot read properties of undefined (reading '0')'')
      | Some [] \<Rightarrow> Inl (TypeError ''Cannot read properties of undefined (reading 'message')'')
      | Some (c # cs) \<Rightarrow>
          (case message c of
             None \<Rightarrow> Inl (TypeError ''Cannot read properties of undefined (reading 'content')'')
           | Some m \<Rightarrow> Inr (content m)))"

definition index_prompt ::
  "(string \<rightharpoonup> jsval) option \<Rightarrow> world \<Rightarrow> (js_error + jsval) \<times> world" where
  "index_prompt args w =
     (case args of
        None \<Rightarrow>
          (Inl (TypeError
             ''Cannot destructure property 'modelId' of 'args' as it is undefined.''), w)
      | Some m \<Rightarrow>
          (case net w 0 of
             Rejects e \<Rightarrow> (Inl e, emit (Fetch COMPLETIONS_URL) w)
           | Resolves response \<Rightarrow>
               (case json response of
                  Inl e \<Rightarrow> (Inl e, emit (Fetch COMPLETIONS_URL) w)
                | Inr body \<Rightarrow>
                    (case error body of
                       Some err \<Rightarrow>
                         (Inl (Error (error_message err)), emit (Fetch COMPLETIONS_URL) w)
                     | None \<Rightarrow> (index_content body, emit (Fetch COMPLETIONS_URL) w)))))"

definition index_tool_body ::
  "(OpenRouterModel list \<Rightarrow> string) \<Rightarrow> CallToolRequest \<Rightarrow> world
     \<Rightarrow> (js_error + jsval) \<times> world" where
  "index_tool_body stringify request w =
     (if name request = ''list_models'' then index_list_models stringify (arguments request) w
      else if name request = ''prompt'' then index_prompt (arguments request) w
      else (Inl (Error (''Unknown tool: '' @ name request)), w))"

definition index_callTool ::
  "(OpenRouterModel list \<Rightarrow> string) \<Rightarrow> CallToolRequest \<Rightarrow> world
     \<Rightarrow> CallToolResult \<times> world" where
  "index_callTool stringify request w =
     (case index_tool_body stringify request w of
        (Inr t, w1) \<Rightarrow> (\<lparr>isError = False, result_text = t\<rparr>, w1)
      | (Inl e, w1) \<Rightarrow> (catch_result e, w1))"

definition fetches :: "world \<Rightarrow> nat" where
  \<comment> \<open>how many times \<open>fetch\<close> has been called so far\<close>
  "fetches w = length (filter (\<lambda>e. case e of Fetch u \<Rightarrow> True | _ \<Rightarrow> False) (trace w))"

section \<open>Example runs\<close>

text \<open>
  Concrete worlds, responses and requests on which the theorems below are instantiated.
\<close>

definition example_world :: "cache_file \<Rightarrow> (nat \<Rightarrow> fetch_outcome) \<Rightarrow> world" where
  "example_world c n =
     \<lparr>cache = c, now = 1000000, write_time = 1000250, unlink_ok = True, write_ok = True,
      net = n, trace = []\<rparr>"

definition example_response :: "nat \<Rightarrow> js_error + OpenRouterResponse \<Rightarrow> Response" where
  "example_response st body =
     \<lparr>status = st, statusText = ''status text'', retryAfter = None, json = body\<rparr>"

definition not_json :: "js_error + OpenRouterResponse" where
  "not_json = Inl (SyntaxError ''Unexpected token < in JSON at position 0'')"

definition always :: "Response \<Rightarrow> nat \<Rightarrow> fetch_outcome" where
  "always r = (\<lambda>k. Resolves r)"

definition example_models :: "OpenRouterModel list" where
  "example_models =
     [\<lparr>model_id = ''meta-llama/llama-3:free'', model_name = ''Llama 3''\<rparr>,
      \<lparr>model_id = ''openai/gpt-4o'', model_name = ''GPT-4o''\<rparr>,
      \<lparr>model_id = ''x/y:free'', model_name = ''Tiny LLAMA''\<rparr>,
      \<lparr>model_id = ''z/q:free'', model_name = ''Other''\<rparr>]"

definition completion_body :: "jsval \<Rightarrow> OpenRouterResponse" where
  "completion_body c =
     \<lparr>data = None, choices = Some [\<lparr>message = Some \<lparr>content = c\<rparr>\<rparr>], error = None\<rparr>"

definition example_prompt_request :: "nat \<Rightarrow> CallToolRequest" where
  "example_prompt_request n =
     \<lparr>name = ''prompt'',
      arguments = Some [''modelId'' \<mapsto> Str ''openai/gpt-4o'',
                        ''prompt'' \<mapsto> Str (replicate n CHR ''a'')]\<rparr>"

definition example_list_request :: "(string \<rightharpoonup> jsval) \<Rightarrow> CallToolRequest" where
  "example_list_request m = \<lparr>name = ''list_models'', arguments = Some m\<rparr>"

definition stale_corrupt_world :: world where
  "stale_corrupt_world =
     example_world (Present 700000 (Inr (Garbage ''Unexpected end of JSON input'')))
       (always (example_response 503 not_json))"

definition fresh_corrupt_world :: world where
  "fresh_corrupt_world =
     example_world (Present 999000 (Inr (Garbage ''Unexpected end of JSON input'')))
       (always (example_response 503 not_json))"

definition cached_world :: world where
  "cached_world =
     example_world (Present 999000 (Inr (Json (Some example_models))))
       (always (example_response 503 not_json))"

definition error_body :: "string \<Rightarrow> OpenRouterResponse" where
  "error_body msg =
     \<lparr>data = None, choices = None, error = Some \<lparr>error_message = msg, error_code = None\<rparr>\<rparr>"

definition refresh_request :: CallToolRequest where
  "refresh_request =
     \<lparr>name = ''list_models'', arguments = Some [''forceRefresh'' \<mapsto> Bool True]\<rparr>"

section \<open>Facts about the string functions\<close>

text \<open>
  The executable \<open>endsWith\<close> and \<open>includes_js\<close> are the usual suffix and contiguous-sublist
  relations on lists.
\<close>

lemma endsWith_suffix: "endsWith s suf \<longleftrightarrow> suffix suf s"
proof
  assume "endsWith s suf"
  then have "s = take (length s - length suf) s @ suf"
    by (metis append_take_drop_id endsWith_def)
  then show "suffix suf s"
    by (metis suffixI)
next
  assume "suffix suf s"
  then obtain p where "s = p @ suf"
    by (auto simp add: suffix_def)
  then show "endsWith s suf"
    by (simp add: endsWith_def)
qed



lemma show_nat_15000: "show_nat 15000 = ''15000''"
  by (simp add: show_nat.simps digit_def)

lemma join_rows:
  "xs \<noteq> [] \<Longrightarrow> sep @ join sep xs = concat (map (\<lambda>x. sep @ x) xs)"
proof (induction sep xs rule: join.induct)
  case (1 sep)
  then show ?case by simp
next
  case (2 sep x)
  show ?case by simp
next
  case (3 sep x y ys)
  then show ?case by simp
qed

section \<open>Properties of the resilient fetch\<close>

lemma net_emit: "net (emit e w) = net w"
  by (simp add: emit_def)

lemma for_attempt_retry:
  assumes "attempt < retries" and "net w attempt = Resolves r" and "500 \<le> status r"
  shows "for_attempt url retries attempt w =
           for_attempt url retries (Suc attempt)
             (emit (Sleep (2 ^ attempt * 1000)) (emit (Fetch url) w))"
  using assms by (subst for_attempt.simps) simp

lemma for_attempt_return:
  assumes "net w retries = Resolves r" and "status r \<noteq> 429"
  shows "for_attempt url retries retries w = (Inr r, emit (Fetch url) w)"
  using assms by (subst for_attempt.simps) simp

lemma for_attempt_429:
  assumes "attempt \<le> retries" and "net w attempt = Resolves response"
    and "status response = 429"
  shows "for_attempt url retries attempt w =
           (Inl (if attempt = retries then rate_limit_error response
                 else ReferenceError ''response is not defined''),
            emit (Fetch url) w)"
  using assms
  by (subst for_attempt.simps) (simp add: catch_block_def rate_limit_error_def Error_def)

text \<open>
  C7. When every response has a status of 500 or more, \<open>fetchWithRetry\<close> with two retries
  calls \<open>fetch\<close> three times, sleeps 1000 ms after attempt 0 and 2000 ms after attempt 1,
  and then returns the third response to the caller instead of throwing.
\<close>

theorem fetchWithRetry_5xx:
  assumes "net w 0 = Resolves r0" and "net w 1 = Resolves r1" and "net w 2 = Resolves r2"
    and "500 \<le> status r0" and "500 \<le> status r1" and "500 \<le> status r2"
  shows "fetchWithRetry url 2 w =
           (Inr r2, w\<lparr>trace := trace w @ [Fetch url, Sleep 1000, Fetch url, Sleep 2000, Fetch url]\<rparr>)"
proof -
  let ?w1 = "emit (Sleep 1000) (emit (Fetch url) w)"
  let ?w2 = "emit (Sleep 2000) (emit (Fetch url) ?w1)"
  have two: "(2::nat) = Suc (Suc 0)" by simp
  have "for_attempt url (Suc (Suc 0)) 0 w = for_attempt url (Suc (Suc 0)) (Suc 0) ?w1"
    using for_attempt_retry [of 0 "Suc (Suc 0)" w r0 url] assms(1,4) by simp
  also have "\<dots> = for_attempt url (Suc (Suc 0)) (Suc (Suc 0)) ?w2"
    using for_attempt_retry [of "Suc 0" "Suc (Suc 0)" ?w1 r1 url] assms(2,5)
    by (simp add: net_emit)
  also have "\<dots> = (Inr r2, emit (Fetch url) ?w2)"
    using for_attempt_return [of ?w2 "Suc (Suc 0)" r2 url] assms(3,6)
    by (simp add: net_emit two)
  finally show ?thesis
    by (simp add: fetchWithRetry_def two emit_def)
qed

theorem fetchWithRetry_5xx_witness:
  "fetchWithRetry MODELS_URL 2 (example_world Absent (always (example_response 503 not_json)))
     = (Inr (example_response 503 not_json),
        (example_world Absent (always (example_response 503 not_json)))
          \<lparr>trace := [Fetch MODELS_URL, Sleep 1000, Fetch MODELS_URL, Sleep 2000,
                     Fetch MODELS_URL]\<rparr>)"
  using fetchWithRetry_5xx [of "example_world Absent (always (example_response 503 not_json))"
      "example_response 503 not_json" "example_response 503 not_json"
      "example_response 503 not_json" MODELS_URL]
  by (simp add: example_world_def always_def example_response_def)

text \<open>
  C1. A 429 on an attempt that is not the last one does end the call without another
  attempt, but the error that leaves the function is not the rate-limit error: the
  \<open>catch\<close> block of the loop intercepts it and, evaluating \<open>response?.status\<close> where
  \<open>response\<close> is out of scope, throws a ReferenceError. The wait time of the
  \<open>Retry-After\<close> header (or \<open>10\<close>) is lost.
\<close>

theorem fetchWithRetry_429_early:
  assumes "net w 0 = Resolves response" and "status response = 429" and "0 < retries"
  shows "fetchWithRetry url retries w =
           (Inl (ReferenceError ''response is not defined''), emit (Fetch url) w)"
  unfolding fetchWithRetry_def using assms
  by (subst for_attempt.simps) (simp add: catch_block_def rate_limit_error_def Error_def)

theorem fetchWithRetry_429_early_witness:
  "fst (callTool \<lparr>name = ''list_models'', arguments = None\<rparr>
          (example_world Absent (always (example_response 429 not_json))))
     = \<lparr>isError = True, result_text = Str ''Error: response is not defined''\<rparr>"
  using fetchWithRetry_429_early [of "example_world Absent (always (example_response 429 not_json))"
      "example_response 429 not_json" 2 MODELS_URL]
  by (simp add: example_world_def always_def example_response_def callTool_def catch_result_def tool_body_def
      list_models_def acquire_models_def arg_def getCachedModels_def cache_catch_def ENOENT_def
      ReferenceError_def)

text \<open>
  Only on the last attempt does the rate-limit error reach the caller, with the wait time
  of the \<open>Retry-After\<close> header, or \<open>10\<close> when the header is missing or empty.
\<close>

theorem fetchWithRetry_429_final_attempt:
  assumes "net w 0 = Resolves r0" and "net w 1 = Resolves r1" and "net w 2 = Resolves r2"
    and "500 \<le> status r0" and "500 \<le> status r1" and "status r2 = 429"
  shows "fetchWithRetry url 2 w =
           (Inl (Error (''Rate limited by OpenRouter. Please wait ''
                   @ (case retryAfter r2 of None \<Rightarrow> ''10'' | Some v \<Rightarrow> if v = [] then ''10'' else v)
                   @ '' seconds.'')),
            w\<lparr>trace := trace w @ [Fetch url, Sleep 1000, Fetch url, Sleep 2000, Fetch url]\<rparr>)"
proof -
  let ?w1 = "emit (Sleep 1000) (emit (Fetch url) w)"
  let ?w2 = "emit (Sleep 2000) (emit (Fetch url) ?w1)"
  have two: "(2::nat) = Suc (Suc 0)" by simp
  have "for_attempt url (Suc (Suc 0)) 0 w = for_attempt url (Suc (Suc 0)) (Suc 0) ?w1"
    using for_attempt_retry [of 0 "Suc (Suc 0)" w r0 url] assms(1,4) by simp
  also have "\<dots> = for_attempt url (Suc (Suc 0)) (Suc (Suc 0)) ?w2"
    using for_attempt_retry [of "Suc 0" "Suc (Suc 0)" ?w1 r1 url] assms(2,5)
    by (simp add: net_emit)
  also have "\<dots> = (Inl (rate_limit_error r2), emit (Fetch url) ?w2)"
    using for_attempt_429 [of "Suc (Suc 0)" "Suc (Suc 0)" ?w2 r2 url] assms(3,6)
    by (simp add: net_emit two)
  finally show ?thesis
    by (simp add: fetchWithRetry_def two emit_def rate_limit_error_def retry_after_or_10_def)
qed

theorem fetchWithRetry_429_final_attempt_witness:
  "fetchWithRetry MODELS_URL 2
     (example_world Absent
        (\<lambda>k. Resolves (example_response (if k < 2 then 503 else 429) not_json)))
     = (Inl (Error ''Rate limited by OpenRouter. Please wait 10 seconds.''),
        (example_world Absent
           (\<lambda>k. Resolves (example_response (if k < 2 then 503 else 429) not_json)))
          \<lparr>trace := [Fetch MODELS_URL, Sleep 1000, Fetch MODELS_URL, Sleep 2000,
                     Fetch MODELS_URL]\<rparr>)"
  using fetchWithRetry_429_final_attempt
      [of "example_world Absent
             (\<lambda>k. Resolves (example_response (if k < 2 then 503 else 429) not_json))"
          "example_response 503 not_json" "example_response 503 not_json"
          "example_response 429 not_json" MODELS_URL]
  by (simp add: example_world_def example_response_def)

text \<open>
  The one-attempt variant of the wrapper throws the rate-limit error on every 429.
\<close>

lemma fetchWithRetry_single_429:
  assumes "net w 0 = Resolves response" and "status response = 429"
  shows "fetchWithRetry_single url w = (Inl (rate_limit_error response), emit (Fetch url) w)"
  using assms by (simp add: fetchWithRetry_single_def)

theorem fetchWithRetry_single_429_witness:
  "fetchWithRetry_single MODELS_URL
     (example_world Absent (always (example_response 429 not_json)))
     = (Inl (Error ''Rate limited by OpenRouter. Please wait 10 seconds.''),
        emit (Fetch MODELS_URL) (example_world Absent (always (example_response 429 not_json))))"
  using fetchWithRetry_single_429
      [of "example_world Absent (always (example_response 429 not_json))"
          "example_response 429 not_json" MODELS_URL]
  by (simp add: example_world_def always_def example_response_def rate_limit_error_def
      retry_after_or_10_def)

lemma rate_limit_message:
  "err_message (rate_limit_error response) =
     ''Rate limited by OpenRouter. Please wait ''
     @ (case retryAfter response of None \<Rightarrow> ''10'' | Some v \<Rightarrow> if v = [] then ''10'' else v)
     @ '' seconds.''"
  by (simp add: rate_limit_error_def retry_after_or_10_def Error_def)

section \<open>Properties of the model cache\<close>

lemma fetches_emit:
  "fetches (emit e w) = fetches w + (case e of Fetch u \<Rightarrow> 1 | _ \<Rightarrow> 0)"
  by (cases e) (simp_all add: fetches_def emit_def)

lemma fetches_cache_update: "fetches (w\<lparr>cache := c\<rparr>) = fetches w"
  by (simp add: fetches_def)

lemma fetches_unlink: "fetches (unlink w) = fetches w"
  by (simp add: unlink_def Let_def fetches_cache_update fetches_emit)

lemma fetches_cache_catch: "fetches (cache_catch e w) = fetches w"
  by (simp add: cache_catch_def fetches_unlink fetches_emit)

lemma fetches_getCachedModels: "fetches (snd (getCachedModels w)) = fetches w"
  by (simp add: getCachedModels_def fetches_cache_catch split: cache_file.splits sum.splits)

lemma fetches_setCachedModels: "fetches (setCachedModels ms w) = fetches w"
  by (simp add: setCachedModels_def Let_def fetches_cache_update fetches_emit)

lemma fetches_for_attempt:
  "attempt \<le> retries \<Longrightarrow> fetches w < fetches (snd (for_attempt url retries attempt w))"
proof (induction url retries attempt w rule: for_attempt.induct)
  case (1 url retries attempt w)
  show ?case
  proof (cases "net w attempt")
    case (Rejects e)
    with "1.prems" show ?thesis
      by (subst for_attempt.simps) (simp add: fetches_emit)
  next
    case (Resolves response)
    show ?thesis
    proof (cases "status response \<noteq> 429 \<and> 500 \<le> status response \<and> attempt < retries")
      case True
      then have "fetches (emit (Sleep (2 ^ attempt * 1000)) (emit (Fetch url) w))
                 < fetches (snd (for_attempt url retries (attempt + 1)
                      (emit (Sleep (2 ^ attempt * 1000)) (emit (Fetch url) w))))"
        using "1.IH" [OF "1.prems" Resolves] by simp
      with True Resolves "1.prems" show ?thesis
        by (subst for_attempt.simps) (simp add: fetches_emit)
    next
      case False
      with Resolves "1.prems" show ?thesis
        by (subst for_attempt.simps) (auto simp add: fetches_emit)
    qed
  qed
qed

lemma fetches_fetchWithRetry: "fetches w < fetches (snd (fetchWithRetry url retries w))"
  by (simp add: fetchWithRetry_def fetches_for_attempt)

lemma fetches_for_attempt_le:
  "fetches (snd (for_attempt url retries attempt w)) \<le> fetches w + (Suc retries - attempt)"
proof (induction url retries attempt w rule: for_attempt.induct)
  case (1 url retries attempt w)
  show ?case
  proof (cases "attempt \<le> retries")
    case False
    then show ?thesis
      by (subst for_attempt.simps) simp
  next
    case le: True
    show ?thesis
    proof (cases "net w attempt")
      case (Rejects e)
      with le show ?thesis
        by (subst for_attempt.simps) (simp add: fetches_emit)
    next
      case (Resolves response)
      show ?thesis
      proof (cases "status response \<noteq> 429 \<and> 500 \<le> status response \<and> attempt < retries")
        case True
        then have "fetches (snd (for_attempt url retries (attempt + 1)
                      (emit (Sleep (2 ^ attempt * 1000)) (emit (Fetch url) w))))
                   \<le> fetches (emit (Sleep (2 ^ attempt * 1000)) (emit (Fetch url) w))
                       + (Suc retries - (attempt + 1))"
          using "1.IH" [OF le Resolves] by simp
        with True Resolves le show ?thesis
          by (subst for_attempt.simps) (simp add: fetches_emit, arith)
      next
        case False
        with Resolves le show ?thesis
          by (subst for_attempt.simps) (auto simp add: fetches_emit)
      qed
    qed
  qed
qed

text \<open>
  Whatever the network does, \<open>fetchWithRetry\<close> calls \<open>fetch\<close> at least once and at most
  \<open>retries + 1\<close> times.
\<close>

theorem fetchWithRetry_attempts_bound:
  "fetches w < fetches (snd (fetchWithRetry url retries w))
   \<and> fetches (snd (fetchWithRetry url retries w)) \<le> fetches w + retries + 1"
  using fetches_for_attempt_le [of url retries 0 w] fetches_fetchWithRetry [of w url retries]
  by (simp add: fetchWithRetry_def)

lemma getCachedModels_value:
  "fst (getCachedModels w) =
     (case cache w of
        Present mt (Inr (Json v)) \<Rightarrow> if now w - mt < 300000 then v else None
      | _ \<Rightarrow> None)"
  by (simp add: getCachedModels_def CACHE_TTL_def JSON_parse_def
      split: cache_file.splits sum.splits json_text.splits)

lemma acquire_models_hit:
  assumes "\<not> truthy (arg args ''forceRefresh'')" and "getCachedModels w = (Some models, w1)"
  shows "acquire_models args w = (Inr models, w1)"
  using assms by (simp add: acquire_models_def)

lemma fetches_acquire_hit:
  assumes "\<not> truthy (arg args ''forceRefresh'')" and "fst (getCachedModels w) = Some models"
  shows "fetches (snd (acquire_models args w)) = fetches w"
proof -
  obtain w1 where g: "getCachedModels w = (Some models, w1)"
    using assms(2) by (cases "getCachedModels w") simp
  have "fetches w1 = fetches w"
    using fetches_getCachedModels [of w] g by simp
  then show ?thesis
    using acquire_models_hit [OF assms(1) g] by simp
qed

lemma fetches_after_fetch:
  "fetches w1 < fetches (snd (case fetchWithRetry MODELS_URL 2 w1 of
             (Inl e, w2) \<Rightarrow> (Inl e, w2)
           | (Inr response, w2) \<Rightarrow>
               if \<not> ok response then
                 (Inl (Error (''OpenRouter API error: '' @ show_nat (status response) @ '' ''
                              @ statusText response)), w2)
               else
                 (case json response of
                    Inl e \<Rightarrow> (Inl e, w2)
                  | Inr body \<Rightarrow>
                      (let models = (case data body of None \<Rightarrow> [] | Some d \<Rightarrow> d)
                       in (Inr models, setCachedModels models w2)))))"
  using fetches_fetchWithRetry [of w1 MODELS_URL 2]
  by (cases "fetchWithRetry MODELS_URL 2 w1")
     (auto simp add: Let_def fetches_setCachedModels split: sum.splits)

lemma fetches_acquire_miss:
  assumes "truthy (arg args ''forceRefresh'') \<or> fst (getCachedModels w) = None"
  shows "fetches w < fetches (snd (acquire_models args w))"
proof (cases "truthy (arg args ''forceRefresh'')")
  case True
  then show ?thesis
    using fetches_after_fetch [of w] by (simp add: acquire_models_def)
next
  case False
  with assms have m: "fst (getCachedModels w) = None" by simp
  then obtain w1 where g: "getCachedModels w = (None, w1)"
    by (cases "getCachedModels w") simp
  have "fetches w1 = fetches w"
    using fetches_getCachedModels [of w] g by simp
  then show ?thesis
    using False g fetches_after_fetch [of w1] by (simp add: acquire_models_def)
qed

lemma snd_list_models: "snd (list_models args w) = snd (acquire_models args w)"
  by (simp add: list_models_def split: prod.splits sum.splits)

text \<open>
  C2. \<open>getCachedModels\<close> returns the stored value exactly when the cache file exists, is
  younger than 300000 ms (300 seconds, strictly) and both reads and parses; otherwise it
  returns \<open>null\<close>. \<open>list_models\<close> calls \<open>fetch\<close> exactly when \<open>forceRefresh\<close> is truthy or
  the cache read returns \<open>null\<close>.
\<close>

theorem cache_read_and_fetch:
  "fst (getCachedModels w) =
     (case cache w of
        Present mt (Inr (Json v)) \<Rightarrow> if now w - mt < 300000 then v else None
      | _ \<Rightarrow> None)
   \<and> (fetches w < fetches (snd (list_models args w))
        \<longleftrightarrow> truthy (arg args ''forceRefresh'') \<or> fst (getCachedModels w) = None)
   \<and> (fetches (snd (list_models args w)) = fetches w
        \<longleftrightarrow> \<not> truthy (arg args ''forceRefresh'') \<and> fst (getCachedModels w) \<noteq> None)"
proof -
  have hit: "fetches (snd (list_models args w)) = fetches w"
    if "\<not> truthy (arg args ''forceRefresh'')" and "fst (getCachedModels w) \<noteq> None"
    using that fetches_acquire_hit [of args w] by (auto simp add: snd_list_models)
  have miss: "fetches w < fetches (snd (list_models args w))"
    if "truthy (arg args ''forceRefresh'') \<or> fst (getCachedModels w) = None"
    using that fetches_acquire_miss [of args w] by (simp add: snd_list_models)
  show ?thesis
    using hit miss getCachedModels_value [of w] by (metis less_irrefl)
qed

theorem cache_read_and_fetch_witness:
  "fst (getCachedModels
          (example_world (Present 700001 (Inr (Json (Some example_models))))
             (always (example_response 503 not_json)))) = Some example_models
   \<and> fetches (snd (list_models None
          (example_world (Present 700001 (Inr (Json (Some example_models))))
             (always (example_response 503 not_json))))) = 0
   \<and> fst (getCachedModels
          (example_world (Present 700000 (Inr (Json (Some example_models))))
             (always (example_response 503 not_json)))) = None
   \<and> 0 < fetches (snd (list_models None
          (example_world (Present 700000 (Inr (Json (Some example_models))))
             (always (example_response 503 not_json)))))"
  using cache_read_and_fetch [of "example_world (Present 700001 (Inr (Json (Some example_models))))
             (always (example_response 503 not_json))" None]
    cache_read_and_fetch [of "example_world (Present 700000 (Inr (Json (Some example_models))))
             (always (example_response 503 not_json))" None]
  by (simp add: example_world_def arg_def fetches_def)

text \<open>
  C6, as the claim states it, fails: a corrupt cache file that is 300 seconds old or older
  is never read, so it is neither parsed nor deleted.
\<close>

theorem getCachedModels_stale_corrupt_kept:
  "cache stale_corrupt_world = Present 700000 (Inr (Garbage ''Unexpected end of JSON input''))
   \<and> JSON_parse (Garbage ''Unexpected end of JSON input'')
       = Inl (SyntaxError ''Unexpected end of JSON input'')
   \<and> getCachedModels stale_corrupt_world = (None, stale_corrupt_world)
   \<and> cache (snd (getCachedModels stale_corrupt_world)) \<noteq> Absent
   \<and> Unlink \<notin> set (trace (snd (getCachedModels stale_corrupt_world)))"
  by (simp add: stale_corrupt_world_def example_world_def getCachedModels_def CACHE_TTL_def
      JSON_parse_def)

text \<open>
  C6, amended. For a cache file younger than 300 seconds whose contents fail to parse, or
  whose \<open>stat\<close> or read fails with a code other than \<open>ENOENT\<close>, the cache read logs the
  error, calls \<open>unlink\<close> once (the file is gone afterwards when the unlink succeeds; an
  unlink failure is swallowed) and reports a miss. An absent file reports a miss with no
  deletion attempt, and a file aged 300 seconds or more is left as it is.
\<close>

theorem getCachedModels_corrupt:
  "(cache w = Present mt (Inr (Garbage msg)) \<and> now w - mt < 300000 \<longrightarrow>
      getCachedModels w =
        (None, w\<lparr>trace := trace w @ [ConsoleError, Unlink],
                 cache := if unlink_ok w then Absent else cache w\<rparr>))
 \<and> (cache w = Present mt (Inl e) \<and> now w - mt < 300000 \<and> err_code e \<noteq> Some ''ENOENT'' \<longrightarrow>
      getCachedModels w =
        (None, w\<lparr>trace := trace w @ [ConsoleError, Unlink],
                 cache := if unlink_ok w then Absent else cache w\<rparr>))
 \<and> (cache w = Inaccessible e \<and> err_code e \<noteq> Some ''ENOENT'' \<longrightarrow>
      getCachedModels w =
        (None, w\<lparr>trace := trace w @ [ConsoleError, Unlink],
                 cache := if unlink_ok w then Absent else cache w\<rparr>))
 \<and> (cache w = Absent \<longrightarrow> getCachedModels w = (None, w))
 \<and> (cache w = Present mt rd \<and> 300000 \<le> now w - mt \<longrightarrow> getCachedModels w = (None, w))"
  by (simp add: getCachedModels_def CACHE_TTL_def JSON_parse_def SyntaxError_def
      cache_catch_def unlink_def emit_def ENOENT_def Let_def)

theorem getCachedModels_corrupt_witness:
  "getCachedModels fresh_corrupt_world
     = (None, fresh_corrupt_world\<lparr>trace := [ConsoleError, Unlink], cache := Absent\<rparr>)
   \<and> getCachedModels (example_world Absent (always (example_response 503 not_json)))
     = (None, example_world Absent (always (example_response 503 not_json)))
   \<and> getCachedModels stale_corrupt_world = (None, stale_corrupt_world)"
  using getCachedModels_corrupt [of fresh_corrupt_world 999000 "''Unexpected end of JSON input''"]
    getCachedModels_corrupt [of "example_world Absent (always (example_response 503 not_json))"]
    getCachedModels_corrupt [where w = stale_corrupt_world and mt = 700000
      and rd = "Inr (Garbage ''Unexpected end of JSON input'')"]
  by (simp add: fresh_corrupt_world_def stale_corrupt_world_def example_world_def)

text \<open>
  A successful cache write is served back by a read made less than 300 seconds after the
  time stamped on the file.
\<close>

theorem setCachedModels_then_read:
  assumes "write_ok w" and "now w - write_time w < 300000"
  shows "fst (getCachedModels (setCachedModels models w)) = Some models"
  using assms
  by (simp add: setCachedModels_def Let_def emit_def getCachedModels_def CACHE_TTL_def
      JSON_parse_def JSON_stringify_def)

theorem setCachedModels_then_read_witness:
  "fst (getCachedModels (setCachedModels example_models
          ((example_world Absent (always (example_response 503 not_json)))
             \<lparr>now := 1300249\<rparr>))) = Some example_models"
  using setCachedModels_then_read
      [of "(example_world Absent (always (example_response 503 not_json)))\<lparr>now := 1300249\<rparr>"
          example_models]
  by (simp add: example_world_def)

section \<open>Properties of the prompt tool\<close>

lemma validateInput_modelId:
  assumes "\<forall>s. modelId = Str s \<longrightarrow> s = [] \<or> 255 < length s"
  shows "validateInput modelId prompt = Inl (Error ''Invalid or missing modelId'')"
  using assms by (cases modelId) (auto simp add: validateInput_def js_length_def)

lemma validateInput_prompt:
  assumes "modelId = Str s" and "s \<noteq> []" and "length s \<le> 255"
    and "\<forall>p. prompt = Str p \<longrightarrow> p = [] \<or> 15000 < length p"
  shows "validateInput modelId prompt =
           Inl (Error ''Prompt must be a string between 1 and 15000 characters'')"
  using assms
  by (cases prompt)
     (auto simp add: validateInput_def js_length_def show_nat_15000 MAX_PROMPT_LENGTH_def)

lemma validateInput_ok:
  assumes "modelId = Str s" and "s \<noteq> []" and "length s \<le> 255"
    and "prompt = Str p" and "p \<noteq> []" and "length p \<le> 15000"
  shows "validateInput modelId prompt = Inr ()"
  using assms by (simp add: validateInput_def js_length_def MAX_PROMPT_LENGTH_def)

lemma callTool_prompt_invalid:
  assumes "name request = ''prompt''" and "arguments request = Some m"
    and "validateInput (arg (Some m) ''modelId'') (arg (Some m) ''prompt'') = Inl e"
  shows "callTool request w = (\<lparr>isError = True, result_text = Str (''Error: '' @ err_message e)\<rparr>, w)"
  using assms by (simp add: callTool_def catch_result_def tool_body_def prompt_tool_def)

text \<open>
  C3. A \<open>prompt\<close> call whose \<open>modelId\<close> is not a string, is empty or is longer than 255
  characters fails with \<open>Invalid or missing modelId\<close>; with a valid \<open>modelId\<close>, a prompt
  that is not a string, is empty or is longer than 15000 characters fails with the prompt
  message. In both cases, and when the call carries no arguments at all, the world is
  unchanged: no \<open>fetch\<close> is made. A prompt of 1 to 15000 characters passes validation.
\<close>

theorem prompt_validation:
  assumes "name request = ''prompt''"
  shows "(arguments request = None \<longrightarrow>
            isError (fst (callTool request w)) \<and> snd (callTool request w) = w)
       \<and> (arguments request = Some m \<longrightarrow>
            ((\<forall>s. arg (Some m) ''modelId'' = Str s \<longrightarrow> s = [] \<or> 255 < length s) \<longrightarrow>
               callTool request w =
                 (\<lparr>isError = True, result_text = Str ''Error: Invalid or missing modelId''\<rparr>, w))
          \<and> ((\<exists>s. arg (Some m) ''modelId'' = Str s \<and> s \<noteq> [] \<and> length s \<le> 255)
              \<and> (\<forall>p. arg (Some m) ''prompt'' = Str p \<longrightarrow> p = [] \<or> 15000 < length p) \<longrightarrow>
               callTool request w =
                 (\<lparr>isError = True,
                   result_text =
                     Str ''Error: Prompt must be a string between 1 and 15000 characters''\<rparr>, w))
          \<and> ((\<exists>s. arg (Some m) ''modelId'' = Str s \<and> s \<noteq> [] \<and> length s \<le> 255)
              \<and> (\<exists>p. arg (Some m) ''prompt'' = Str p \<and> p \<noteq> [] \<and> length p \<le> 15000) \<longrightarrow>
               validateInput (arg (Some m) ''modelId'') (arg (Some m) ''prompt'') = Inr ()))"
proof (intro conjI impI)
  assume "arguments request = None"
  with assms show "isError (fst (callTool request w))"
    by (simp add: callTool_def catch_result_def tool_body_def prompt_tool_def)
  from \<open>arguments request = None\<close> assms show "snd (callTool request w) = w"
    by (simp add: callTool_def catch_result_def tool_body_def prompt_tool_def)
next
  assume a: "arguments request = Some m"
    and b: "\<forall>s. arg (Some m) ''modelId'' = Str s \<longrightarrow> s = [] \<or> 255 < length s"
  show "callTool request w =
          (\<lparr>isError = True, result_text = Str ''Error: Invalid or missing modelId''\<rparr>, w)"
    using callTool_prompt_invalid [OF assms a validateInput_modelId [OF b]]
    by (simp add: Error_def)
next
  assume a: "arguments request = Some m"
    and b: "(\<exists>s. arg (Some m) ''modelId'' = Str s \<and> s \<noteq> [] \<and> length s \<le> 255)
              \<and> (\<forall>p. arg (Some m) ''prompt'' = Str p \<longrightarrow> p = [] \<or> 15000 < length p)"
  then obtain s where s: "arg (Some m) ''modelId'' = Str s" "s \<noteq> []" "length s \<le> 255"
    by blast
  from b have p: "\<forall>p. arg (Some m) ''prompt'' = Str p \<longrightarrow> p = [] \<or> 15000 < length p"
    by blast
  show "callTool request w =
          (\<lparr>isError = True,
            result_text = Str ''Error: Prompt must be a string between 1 and 15000 characters''\<rparr>, w)"
    using callTool_prompt_invalid [OF assms a validateInput_prompt [OF s p]]
    by (simp add: Error_def)
next
  assume "(\<exists>s. arg (Some m) ''modelId'' = Str s \<and> s \<noteq> [] \<and> length s \<le> 255)
              \<and> (\<exists>p. arg (Some m) ''prompt'' = Str p \<and> p \<noteq> [] \<and> length p \<le> 15000)"
  then show "validateInput (arg (Some m) ''modelId'') (arg (Some m) ''prompt'') = Inr ()"
    using validateInput_ok by blast
qed

theorem prompt_validation_witness:
  "callTool (example_prompt_request 15001) (example_world Absent (always (example_response 200 not_json)))
     = (\<lparr>isError = True,
         result_text = Str ''Error: Prompt must be a string between 1 and 15000 characters''\<rparr>,
        example_world Absent (always (example_response 200 not_json)))
   \<and> validateInput (Str ''openai/gpt-4o'') (Str (replicate 15000 CHR ''a'')) = Inr ()
   \<and> callTool \<lparr>name = ''prompt'', arguments = Some [''prompt'' \<mapsto> Str ''hello'']\<rparr>
        (example_world Absent (always (example_response 200 not_json)))
     = (\<lparr>isError = True, result_text = Str ''Error: Invalid or missing modelId''\<rparr>,
        example_world Absent (always (example_response 200 not_json)))"
  using prompt_validation [of "example_prompt_request 15001"
        "example_world Absent (always (example_response 200 not_json))"
        "[''modelId'' \<mapsto> Str ''openai/gpt-4o'', ''prompt'' \<mapsto> Str (replicate 15001 CHR ''a'')]"]
    prompt_validation [of "example_prompt_request 15000"
        "example_world Absent (always (example_response 200 not_json))"
        "[''modelId'' \<mapsto> Str ''openai/gpt-4o'', ''prompt'' \<mapsto> Str (replicate 15000 CHR ''a'')]"]
    prompt_validation [of "\<lparr>name = ''prompt'', arguments = Some [''prompt'' \<mapsto> Str ''hello'']\<rparr>"
        "example_world Absent (always (example_response 200 not_json))"
        "[''prompt'' \<mapsto> Str ''hello'']"]
  by (simp add: example_prompt_request_def arg_def)

lemma callTool_prompt_2xx:
  assumes "name request = ''prompt''" and "arguments request = Some m"
    and "validateInput (arg (Some m) ''modelId'') (arg (Some m) ''prompt'') = Inr ()"
    and "fetchWithRetry COMPLETIONS_URL 2 w = (Inr response, w1)"
    and "ok response" and "json response = Inr body"
  shows "callTool request w =
           (if truthy (first_content body)
            then (\<lparr>isError = False, result_text = first_content body\<rparr>, w1)
            else (\<lparr>isError = True,
                   result_text = Str ''Error: Invalid response from OpenRouter: Missing content''\<rparr>,
                  w1))"
  using assms
  by (simp add: callTool_def catch_result_def tool_body_def prompt_tool_def completion_text_def
      Error_def)

lemma first_content_falsy:
  "\<not> truthy (first_content body) \<longleftrightarrow>
     choices body = None \<or> choices body = Some []
     \<or> (\<exists>c cs. choices body = Some (c # cs)
           \<and> (message c = None \<or> (\<exists>m. message c = Some m \<and> \<not> truthy (content m))))"
  by (auto simp add: first_content_def split: option.splits list.splits)

lemma example_fetch_200:
  "fetchWithRetry url 2 (example_world c (always (example_response 200 b)))
     = (Inr (example_response 200 b),
        emit (Fetch url) (example_world c (always (example_response 200 b))))"
  by (simp add: fetchWithRetry_def for_attempt.simps example_world_def always_def
      example_response_def)

lemma example_prompt_valid:
  "validateInput (arg (arguments (example_prompt_request 5)) ''modelId'')
     (arg (arguments (example_prompt_request 5)) ''prompt'') = Inr ()"
  by (simp add: example_prompt_request_def arg_def validateInput_def js_length_def
      MAX_PROMPT_LENGTH_def)

text \<open>
  C4, as the claim states it, fails: a 2xx response whose first choice has the empty
  string as its content does not get that content back; the call fails.
\<close>

theorem prompt_empty_content_not_returned:
  "choices (completion_body (Str '''')) = Some [\<lparr>message = Some \<lparr>content = Str ''''\<rparr>\<rparr>]
   \<and> ok (example_response 200 (Inr (completion_body (Str ''''))))
   \<and> fst (callTool (example_prompt_request 5)
            (example_world Absent
               (always (example_response 200 (Inr (completion_body (Str '''')))))))
       \<noteq> \<lparr>isError = False, result_text = Str ''''\<rparr>
   \<and> isError (fst (callTool (example_prompt_request 5)
            (example_world Absent
               (always (example_response 200 (Inr (completion_body (Str ''''))))))))"
proof -
  have "callTool (example_prompt_request 5)
          (example_world Absent (always (example_response 200 (Inr (completion_body (Str ''''))))))
        = (\<lparr>isError = True,
            result_text = Str ''Error: Invalid response from OpenRouter: Missing content''\<rparr>,
           emit (Fetch COMPLETIONS_URL)
             (example_world Absent
                (always (example_response 200 (Inr (completion_body (Str '''')))))))"
    using callTool_prompt_2xx
        [where request = "example_prompt_request 5"
           and m = "[''modelId'' \<mapsto> Str ''openai/gpt-4o'', ''prompt'' \<mapsto> Str (replicate 5 CHR ''a'')]"
           and w = "example_world Absent
                      (always (example_response 200 (Inr (completion_body (Str '''')))))"
           and ?w1.0 = "emit (Fetch COMPLETIONS_URL) (example_world Absent
                      (always (example_response 200 (Inr (completion_body (Str ''''))))))"
           and response = "example_response 200 (Inr (completion_body (Str '''')))"
           and body = "completion_body (Str '''')"]
      example_fetch_200 [of COMPLETIONS_URL Absent] example_prompt_valid
    by (simp add: example_prompt_request_def ok_def example_response_def completion_body_def
        first_content_def)
  then show ?thesis
    by (simp add: completion_body_def ok_def example_response_def)
qed

text \<open>
  C4, amended. On a 2xx completion response whose body parses, the tool returns the content
  of the first choice's message, as it came, when that content is there and truthy (for a
  string: not empty). When \<open>choices\<close>, its first element, the message or the content is
  missing, or the content is falsy (the empty string, \<open>null\<close>), the tool fails with
  \<open>Invalid response from OpenRouter: Missing content\<close>. A successful result never has an
  empty text.
\<close>

theorem prompt_completion_content:
  assumes "name request = ''prompt''" and "arguments request = Some m"
    and "validateInput (arg (Some m) ''modelId'') (arg (Some m) ''prompt'') = Inr ()"
    and "fetchWithRetry COMPLETIONS_URL 2 w = (Inr response, w1)"
    and "ok response" and "json response = Inr body"
  shows "(choices body = Some (c # cs) \<and> message c = Some msg \<and> truthy (content msg) \<longrightarrow>
            callTool request w = (\<lparr>isError = False, result_text = content msg\<rparr>, w1))
       \<and> (choices body = Some (c # cs) \<and> message c = Some msg \<and> content msg = Str t
            \<and> t \<noteq> [] \<longrightarrow>
            callTool request w = (\<lparr>isError = False, result_text = Str t\<rparr>, w1))
       \<and> (choices body = None \<or> choices body = Some []
           \<or> (\<exists>c cs. choices body = Some (c # cs)
                 \<and> (message c = None
                     \<or> (\<exists>msg. message c = Some msg \<and> \<not> truthy (content msg))))
          \<longrightarrow> callTool request w =
                 (\<lparr>isError = True,
                   result_text =
                     Str ''Error: Invalid response from OpenRouter: Missing content''\<rparr>,
                  w1))
       \<and> (choices body = Some (c # cs) \<and> message c = Some msg
            \<and> (content msg = Str [] \<or> content msg = Null \<or> content msg = Undefined) \<longrightarrow>
            callTool request w =
                 (\<lparr>isError = True,
                   result_text =
                     Str ''Error: Invalid response from OpenRouter: Missing content''\<rparr>,
                  w1))
       \<and> fst (callTool request w) \<noteq> \<lparr>isError = False, result_text = Str []\<rparr>"
proof -
  note eq = callTool_prompt_2xx [OF assms]
  have ret: "callTool request w = (\<lparr>isError = False, result_text = content msg\<rparr>, w1)"
    if "choices body = Some (c # cs)" and "message c = Some msg" and "truthy (content msg)"
    using that eq by (simp add: first_content_def)
  have err: "callTool request w =
               (\<lparr>isError = True,
                 result_text = Str ''Error: Invalid response from OpenRouter: Missing content''\<rparr>,
                w1)"
    if "\<not> truthy (first_content body)"
    using that eq by simp
  show ?thesis
  proof (intro conjI impI)
    assume "choices body = Some (c # cs) \<and> message c = Some msg \<and> truthy (content msg)"
    then show "callTool request w = (\<lparr>isError = False, result_text = content msg\<rparr>, w1)"
      using ret by blast
  next
    assume a: "choices body = Some (c # cs) \<and> message c = Some msg \<and> content msg = Str t
                 \<and> t \<noteq> []"
    then have "truthy (content msg)" by simp
    with a show "callTool request w = (\<lparr>isError = False, result_text = Str t\<rparr>, w1)"
      using ret by simp
  next
    assume "choices body = None \<or> choices body = Some []
           \<or> (\<exists>c cs. choices body = Some (c # cs)
                 \<and> (message c = None
                     \<or> (\<exists>msg. message c = Some msg \<and> \<not> truthy (content msg))))"
    then have "\<not> truthy (first_content body)"
      by (simp only: first_content_falsy)
    then show "callTool request w =
                 (\<lparr>isError = True,
                   result_text =
                     Str ''Error: Invalid response from OpenRouter: Missing content''\<rparr>,
                  w1)"
      by (rule err)
  next
    assume a: "choices body = Some (c # cs) \<and> message c = Some msg
            \<and> (content msg = Str [] \<or> content msg = Null \<or> content msg = Undefined)"
    then have "\<not> truthy (content msg)" by auto
    with a have "\<not> truthy (first_content body)"
      by (simp add: first_content_def)
    then show "callTool request w =
                 (\<lparr>isError = True,
                   result_text =
                     Str ''Error: Invalid response from OpenRouter: Missing content''\<rparr>,
                  w1)"
      by (rule err)
  next
    show "fst (callTool request w) \<noteq> \<lparr>isError = False, result_text = Str []\<rparr>"
      using eq by (cases "truthy (first_content body)") auto
  qed
qed

theorem prompt_completion_content_witness:
  "callTool (example_prompt_request 5)
     (example_world Absent
        (always (example_response 200 (Inr (completion_body (Str ''Hello''))))))
     = (\<lparr>isError = False, result_text = Str ''Hello''\<rparr>,
        emit (Fetch COMPLETIONS_URL)
          (example_world Absent
             (always (example_response 200 (Inr (completion_body (Str ''Hello'')))))))
   \<and> callTool (example_prompt_request 5)
     (example_world Absent (always (example_response 200 (Inr (completion_body Undefined)))))
     = (\<lparr>isError = True,
         result_text = Str ''Error: Invalid response from OpenRouter: Missing content''\<rparr>,
        emit (Fetch COMPLETIONS_URL)
          (example_world Absent
             (always (example_response 200 (Inr (completion_body Undefined))))))"
  using prompt_completion_content
      [where request = "example_prompt_request 5"
         and m = "[''modelId'' \<mapsto> Str ''openai/gpt-4o'', ''prompt'' \<mapsto> Str (replicate 5 CHR ''a'')]"
         and w = "example_world Absent
                    (always (example_response 200 (Inr (completion_body (Str ''Hello'')))))"
         and ?w1.0 = "emit (Fetch COMPLETIONS_URL) (example_world Absent
                    (always (example_response 200 (Inr (completion_body (Str ''Hello''))))))"
         and response = "example_response 200 (Inr (completion_body (Str ''Hello'')))"
         and body = "completion_body (Str ''Hello'')"
         and c = "\<lparr>message = Some \<lparr>content = Str ''Hello''\<rparr>\<rparr>" and cs = "[]"
         and msg = "\<lparr>content = Str ''Hello''\<rparr>" and t = "''Hello''"]
    prompt_completion_content
      [where request = "example_prompt_request 5"
         and m = "[''modelId'' \<mapsto> Str ''openai/gpt-4o'', ''prompt'' \<mapsto> Str (replicate 5 CHR ''a'')]"
         and w = "example_world Absent
                    (always (example_response 200 (Inr (completion_body Undefined))))"
         and ?w1.0 = "emit (Fetch COMPLETIONS_URL) (example_world Absent
                    (always (example_response 200 (Inr (completion_body Undefined)))))"
         and response = "example_response 200 (Inr (completion_body Undefined))"
         and body = "completion_body Undefined"
         and c = "\<lparr>message = Some \<lparr>content = Undefined\<rparr>\<rparr>" and cs = "[]"
         and msg = "\<lparr>content = Undefined\<rparr>" and t = "''Hello''"]
    example_fetch_200 [of COMPLETIONS_URL Absent]
  by (simp add: example_prompt_request_def arg_def validateInput_def js_length_def
      MAX_PROMPT_LENGTH_def ok_def example_response_def completion_body_def)

text \<open>
  C10. A content that is present but is the empty string is falsy, so the call fails with
  the \<open>Missing content\<close> error as well.
\<close>

theorem prompt_empty_content_rejected:
  assumes "name request = ''prompt''" and "arguments request = Some m"
    and "validateInput (arg (Some m) ''modelId'') (arg (Some m) ''prompt'') = Inr ()"
    and "fetchWithRetry COMPLETIONS_URL 2 w = (Inr response, w1)"
    and "ok response" and "json response = Inr body"
    and "choices body = Some (c # cs)" and "message c = Some msg" and "content msg = Str []"
  shows "callTool request w =
           (\<lparr>isError = True,
             result_text = Str ''Error: Invalid response from OpenRouter: Missing content''\<rparr>, w1)"
  using callTool_prompt_2xx [OF assms(1-6)] assms(7-9)
  by (simp add: first_content_def)

theorem prompt_empty_content_rejected_witness:
  "callTool (example_prompt_request 5)
     (example_world Absent (always (example_response 200 (Inr (completion_body (Str ''''))))))
     = (\<lparr>isError = True,
         result_text = Str ''Error: Invalid response from OpenRouter: Missing content''\<rparr>,
        emit (Fetch COMPLETIONS_URL)
          (example_world Absent
             (always (example_response 200 (Inr (completion_body (Str '''')))))))"
  using prompt_empty_content_rejected
      [where request = "example_prompt_request 5"
         and m = "[''modelId'' \<mapsto> Str ''openai/gpt-4o'', ''prompt'' \<mapsto> Str (replicate 5 CHR ''a'')]"
         and w = "example_world Absent
                    (always (example_response 200 (Inr (completion_body (Str '''')))))"
         and ?w1.0 = "emit (Fetch COMPLETIONS_URL) (example_world Absent
                    (always (example_response 200 (Inr (completion_body (Str ''''))))))"
         and response = "example_response 200 (Inr (completion_body (Str '''')))"
         and body = "completion_body (Str '''')"
         and c = "\<lparr>message = Some \<lparr>content = Str ''''\<rparr>\<rparr>" and cs = "[]"
         and msg = "\<lparr>content = Str ''''\<rparr>"]
    example_fetch_200 [of COMPLETIONS_URL Absent]
  by (simp add: example_prompt_request_def arg_def validateInput_def js_length_def
      MAX_PROMPT_LENGTH_def ok_def example_response_def completion_body_def)

section \<open>Properties of the model listing\<close>



lemma callTool_list_models:
  assumes "name request = ''list_models''"
    and "acquire_models (arguments request) w = (Inr models, w1)"
    and "filterModels (arguments request) models = Inr fs"
  shows "callTool request w = (\<lparr>isError = False, result_text = Str (render fs)\<rparr>, w1)"
  using assms by (simp add: callTool_def tool_body_def list_models_def listing_def)

lemma render_rows:
  "render fs =
     (if fs = [] then ''No models found matching criteria.''
      else ''| Model ID | Tier | Name |\<newline>| :--- | :--- | :--- |''
           @ concat (map (\<lambda>m. ''\<newline>| `'' @ model_id m @ ''` | ''
                              @ (if suffix '':free'' (model_id m) then ''Free'' else ''Paid'')
                              @ '' | '' @ model_name m @ '' |'') fs))"
proof (cases "fs = []")
  case True
  then show ?thesis by (simp add: render_def)
next
  case False
  then have "map row fs \<noteq> []" by simp
  then have "''\<newline>'' @ join ''\<newline>'' (map row fs)
             = concat (map (\<lambda>x. ''\<newline>'' @ x) (map row fs))"
    by (rule join_rows)
  with False show ?thesis
    by (simp add: render_def header_def row_def tier_def endsWith_suffix comp_def)
qed

lemma acquire_cached:
  "acquire_models (Some m) cached_world = (Inr example_models, cached_world)"
  if "m ''forceRefresh'' = None"
  using that
  by (simp add: acquire_models_def arg_def getCachedModels_def cached_world_def example_world_def
      CACHE_TTL_def JSON_parse_def)

text \<open>
  C9. When the filtered list is empty the text is \<open>No models found matching criteria.\<close>;
  otherwise it is the table header followed, for each surviving entry in order, by a
  newline and the row of that entry: the id between backquotes, \<open>Free\<close> or \<open>Paid\<close> by the
  \<open>:free\<close> suffix of the id, and the name.
\<close>

theorem list_models_text:
  assumes "name request = ''list_models''"
    and "acquire_models (arguments request) w = (Inr models, w1)"
    and "filterModels (arguments request) models = Inr fs"
  shows "callTool request w =
           (\<lparr>isError = False,
             result_text = Str
               (if fs = [] then ''No models found matching criteria.''
                else ''| Model ID | Tier | Name |\<newline>| :--- | :--- | :--- |''
                     @ concat (map (\<lambda>m. ''\<newline>| `'' @ model_id m @ ''` | ''
                                @ (if suffix '':free'' (model_id m) then ''Free'' else ''Paid'')
                                @ '' | '' @ model_name m @ '' |'') fs))\<rparr>, w1)"
  using callTool_list_models [OF assms] by (simp only: render_rows)

theorem list_models_text_witness:
  "callTool (example_list_request [''query'' \<mapsto> Str ''mistral'']) cached_world
     = (\<lparr>isError = False, result_text = Str ''No models found matching criteria.''\<rparr>,
        cached_world)
   \<and> callTool (example_list_request [''query'' \<mapsto> Str ''gpt'']) cached_world
     = (\<lparr>isError = False,
         result_text = Str ''| Model ID | Tier | Name |\<newline>| :--- | :--- | :--- |\<newline>| `openai/gpt-4o` | Paid | GPT-4o |''\<rparr>,
        cached_world)
   \<and> callTool (example_list_request [''free'' \<mapsto> Bool True]) cached_world
     = (\<lparr>isError = False,
         result_text = Str ''| Model ID | Tier | Name |\<newline>| :--- | :--- | :--- |\<newline>| `meta-llama/llama-3:free` | Free | Llama 3 |\<newline>| `x/y:free` | Free | Tiny LLAMA |\<newline>| `z/q:free` | Free | Other |''\<rparr>,
        cached_world)"
  using list_models_text [where request = "example_list_request [''query'' \<mapsto> Str ''mistral'']"
        and w = cached_world and ?w1.0 = cached_world and models = example_models and fs = "[]"]
    list_models_text [where request = "example_list_request [''query'' \<mapsto> Str ''gpt'']"
        and w = cached_world and ?w1.0 = cached_world and models = example_models
        and fs = "[\<lparr>model_id = ''openai/gpt-4o'', model_name = ''GPT-4o''\<rparr>]"]
    list_models_text [where request = "example_list_request [''free'' \<mapsto> Bool True]"
        and w = cached_world and ?w1.0 = cached_world and models = example_models
        and fs = "[\<lparr>model_id = ''meta-llama/llama-3:free'', model_name = ''Llama 3''\<rparr>,
                   \<lparr>model_id = ''x/y:free'', model_name = ''Tiny LLAMA''\<rparr>,
                   \<lparr>model_id = ''z/q:free'', model_name = ''Other''\<rparr>]"]
    acquire_cached [of "[''query'' \<mapsto> Str ''mistral'']"]
    acquire_cached [of "[''query'' \<mapsto> Str ''gpt'']"]
    acquire_cached [of "[''free'' \<mapsto> Bool True]"]
  by (simp add: example_list_request_def filterModels_def arg_def String_js_def toLowerCase_def
      lower_char_def Let_def char_of_def bit_Suc_0_iff example_models_def endsWith_def
      suffix_def)


section \<open>Properties of the dispatcher\<close>

lemma callTool_caught:
  assumes "tool_body request w = (Inl e, w1)"
  shows "callTool request w =
           (\<lparr>isError = True, result_text = Str (''Error: '' @ err_message e)\<rparr>, w1)"
  using assms by (simp add: callTool_def catch_result_def)

lemma index_callTool_caught:
  assumes "index_tool_body stringify request w = (Inl e, w1)"
  shows "index_callTool stringify request w =
           (\<lparr>isError = True, result_text = Str (''Error: '' @ err_message e)\<rparr>, w1)"
  using assms by (simp add: index_callTool_def catch_result_def)

lemma list_models_refetch:
  assumes "truthy (arg args ''forceRefresh'') \<and> w1 = w
           \<or> \<not> truthy (arg args ''forceRefresh'') \<and> getCachedModels w = (None, w1)"
  shows "list_models args w =
           (case fetchWithRetry MODELS_URL 2 w1 of
              (Inl e, w2) \<Rightarrow> (Inl e, w2)
            | (Inr response, w2) \<Rightarrow>
                if \<not> ok response then
                  (Inl (Error (''OpenRouter API error: '' @ show_nat (status response) @ '' ''
                               @ statusText response)), w2)
                else
                  (case json response of
                     Inl e \<Rightarrow> (Inl e, w2)
                   | Inr body \<Rightarrow>
                       (listing args (case data body of None \<Rightarrow> [] | Some d \<Rightarrow> d),
                        setCachedModels (case data body of None \<Rightarrow> [] | Some d \<Rightarrow> d) w2)))"
proof -
  have src: "(if truthy (arg args ''forceRefresh'') then (None, w) else getCachedModels w)
             = (None, w1)"
    using assms by auto
  obtain r w2 where f: "fetchWithRetry MODELS_URL 2 w1 = (r, w2)"
    by (cases "fetchWithRetry MODELS_URL 2 w1")
  show ?thesis
  proof (cases r)
    case (Inl e)
    with f src show ?thesis
      by (simp add: list_models_def acquire_models_def)
  next
    case (Inr response)
    show ?thesis
    proof (cases "json response")
      case (Inl e)
      with f src Inr show ?thesis
        by (simp add: list_models_def acquire_models_def)
    next
      case body: (Inr body)
      with f src Inr show ?thesis
        by (simp add: list_models_def acquire_models_def Let_def)
    qed
  qed
qed

lemma list_models_fetch_throws:
  assumes "name request = ''list_models''"
    and "truthy (arg (arguments request) ''forceRefresh'') \<and> w1 = w
         \<or> \<not> truthy (arg (arguments request) ''forceRefresh'') \<and> getCachedModels w = (None, w1)"
    and "fetchWithRetry MODELS_URL 2 w1 = (Inl e, w2)"
  shows "callTool request w =
           (\<lparr>isError = True, result_text = Str (''Error: '' @ err_message e)\<rparr>, w2)"
  using assms(1,3) list_models_refetch [OF assms(2)]
  by (simp add: callTool_def catch_result_def tool_body_def)

lemma list_models_bad_status:
  assumes "name request = ''list_models''"
    and "truthy (arg (arguments request) ''forceRefresh'') \<and> w1 = w
         \<or> \<not> truthy (arg (arguments request) ''forceRefresh'') \<and> getCachedModels w = (None, w1)"
    and "fetchWithRetry MODELS_URL 2 w1 = (Inr response, w2)" and "\<not> ok response"
  shows "callTool request w =
           (\<lparr>isError = True,
             result_text = Str (''Error: OpenRouter API error: '' @ show_nat (status response)
                                @ '' '' @ statusText response)\<rparr>, w2)"
  using assms(1,3,4) list_models_refetch [OF assms(2)]
  by (simp add: callTool_def catch_result_def tool_body_def Error_def)

lemma list_models_bad_body:
  assumes "name request = ''list_models''"
    and "truthy (arg (arguments request) ''forceRefresh'') \<and> w1 = w
         \<or> \<not> truthy (arg (arguments request) ''forceRefresh'') \<and> getCachedModels w = (None, w1)"
    and "fetchWithRetry MODELS_URL 2 w1 = (Inr response, w2)" and "ok response"
    and "json response = Inl e"
  shows "callTool request w =
           (\<lparr>isError = True, result_text = Str (''Error: '' @ err_message e)\<rparr>, w2)"
  using assms(1,3,4,5) list_models_refetch [OF assms(2)]
  by (simp add: callTool_def catch_result_def tool_body_def)

lemma prompt_fetch_throws:
  assumes "name request = ''prompt''" and "arguments request = Some m"
    and "validateInput (arg (Some m) ''modelId'') (arg (Some m) ''prompt'') = Inr ()"
    and "fetchWithRetry COMPLETIONS_URL 2 w = (Inl e, w1)"
  shows "callTool request w =
           (\<lparr>isError = True, result_text = Str (''Error: '' @ err_message e)\<rparr>, w1)"
  using assms by (simp add: callTool_def catch_result_def tool_body_def prompt_tool_def)

lemma prompt_bad_status:
  assumes "name request = ''prompt''" and "arguments request = Some m"
    and "validateInput (arg (Some m) ''modelId'') (arg (Some m) ''prompt'') = Inr ()"
    and "fetchWithRetry COMPLETIONS_URL 2 w = (Inr response, w1)" and "\<not> ok response"
  shows "callTool request w =
           (\<lparr>isError = True,
             result_text = Str (''Error: OpenRouter API Error: ''
               @ (case json response of
                    Inl x \<Rightarrow> ''HTTP error '' @ show_nat (status response)
                  | Inr body \<Rightarrow>
                      (case error body of
                         None \<Rightarrow> ''HTTP error '' @ show_nat (status response)
                       | Some err \<Rightarrow>
                           if error_message err = []
                           then ''HTTP error '' @ show_nat (status response)
                           else error_message err)))\<rparr>, w1)"
  using assms
  by (simp add: callTool_def catch_result_def tool_body_def prompt_tool_def upstream_message_def
      Error_def Let_def split: sum.splits option.splits)

lemma prompt_bad_body:
  assumes "name request = ''prompt''" and "arguments request = Some m"
    and "validateInput (arg (Some m) ''modelId'') (arg (Some m) ''prompt'') = Inr ()"
    and "fetchWithRetry COMPLETIONS_URL 2 w = (Inr response, w1)" and "ok response"
    and "json response = Inl e"
  shows "callTool request w =
           (\<lparr>isError = True, result_text = Str (''Error: '' @ err_message e)\<rparr>, w1)"
  using assms by (simp add: callTool_def catch_result_def tool_body_def prompt_tool_def)

lemma listing_string: "listing args models = Inr t \<Longrightarrow> is_string t"
  by (auto simp add: listing_def split: sum.splits)

lemma list_models_string: "list_models args w = (Inr t, w1) \<Longrightarrow> is_string t"
  by (auto simp add: list_models_def dest: listing_string split: prod.splits sum.splits)

lemma callTool_error_text:
  "isError (fst (callTool request w)) \<Longrightarrow>
   \<exists>e. fst (tool_body request w) = Inl e
       \<and> result_text (fst (callTool request w)) = Str (''Error: '' @ err_message e)"
  by (cases "tool_body request w")
     (auto simp add: callTool_def catch_result_def split: sum.splits)

lemma callTool_text_string:
  "is_string (result_text (fst (callTool request w)))
   \<or> name request = ''prompt'' \<and> \<not> isError (fst (callTool request w))"
proof (cases "tool_body request w")
  case (Pair r w1)
  show ?thesis
  proof (cases r)
    case (Inl e)
    with Pair show ?thesis
      by (simp add: callTool_def catch_result_def)
  next
    case (Inr t)
    show ?thesis
    proof (cases "name request = ''list_models''")
      case True
      with Pair Inr have "list_models (arguments request) w = (Inr t, w1)"
        by (simp add: tool_body_def)
      then have "is_string t" by (rule list_models_string)
      with Pair Inr show ?thesis
        by (simp add: callTool_def)
    next
      case False
      with Pair Inr have "name request = ''prompt''"
        by (auto simp add: tool_body_def split: if_splits)
      with Pair Inr show ?thesis
        by (simp add: callTool_def)
    qed
  qed
qed

lemma index_prompt_rejected:
  assumes "name request = ''prompt''" and "arguments request = Some m"
    and "net w 0 = Rejects e"
  shows "index_callTool stringify request w =
           (\<lparr>isError = True, result_text = Str (''Error: '' @ err_message e)\<rparr>,
            emit (Fetch COMPLETIONS_URL) w)"
  using assms
  by (simp add: index_callTool_def catch_result_def index_tool_body_def index_prompt_def)

lemma index_prompt_error_body:
  assumes "name request = ''prompt''" and "arguments request = Some m"
    and "net w 0 = Resolves response" and "json response = Inr body"
    and "error body = Some err"
  shows "index_callTool stringify request w =
           (\<lparr>isError = True, result_text = Str (''Error: '' @ error_message err)\<rparr>,
            emit (Fetch COMPLETIONS_URL) w)"
  using assms
  by (simp add: index_callTool_def catch_result_def index_tool_body_def index_prompt_def
      Error_def)

lemma index_list_rejected:
  assumes "name request = ''list_models''" and "net w 0 = Rejects e"
  shows "index_callTool stringify request w =
           (\<lparr>isError = True, result_text = Str (''Error: '' @ err_message e)\<rparr>,
            emit (Fetch MODELS_URL) w)"
  using assms
  by (simp add: index_callTool_def catch_result_def index_tool_body_def index_list_models_def)

lemma unknown_tool:
  assumes "name request \<noteq> ''list_models''" and "name request \<noteq> ''prompt''"
  shows "callTool request w =
           (\<lparr>isError = True, result_text = Str (''Error: Unknown tool: '' @ name request)\<rparr>, w)"
    and "index_callTool stringify request w =
           (\<lparr>isError = True, result_text = Str (''Error: Unknown tool: '' @ name request)\<rparr>, w)"
  using assms
  by (simp_all add: callTool_def index_callTool_def catch_result_def tool_body_def
      index_tool_body_def Error_def)

text \<open>
  C8, as the claim states it, fails: the result is not always well formed. A 2xx
  completion whose content is truthy but not a string (here the number 42) is handed on
  as the \<open>text\<close> of the result, unconverted; the standalone server hands on even a missing
  content.
\<close>

theorem callTool_text_not_string:
  "fst (callTool (example_prompt_request 5)
          (example_world Absent (always (example_response 200 (Inr (completion_body (Num ''42'')))))))
     = \<lparr>isError = False, result_text = Num ''42''\<rparr>
   \<and> \<not> is_string (Num ''42'')
   \<and> fst (index_callTool (\<lambda>models. ''[]'') (example_prompt_request 5)
          (example_world Absent (always (example_response 200 (Inr (completion_body Undefined))))))
     = \<lparr>isError = False, result_text = Undefined\<rparr>
   \<and> \<not> is_string Undefined"
proof -
  have "callTool (example_prompt_request 5)
          (example_world Absent (always (example_response 200 (Inr (completion_body (Num ''42''))))))
        = (\<lparr>isError = False, result_text = Num ''42''\<rparr>,
           emit (Fetch COMPLETIONS_URL)
             (example_world Absent
                (always (example_response 200 (Inr (completion_body (Num ''42'')))))))"
    using callTool_prompt_2xx
        [where request = "example_prompt_request 5"
           and m = "[''modelId'' \<mapsto> Str ''openai/gpt-4o'', ''prompt'' \<mapsto> Str (replicate 5 CHR ''a'')]"
           and w = "example_world Absent
                      (always (example_response 200 (Inr (completion_body (Num ''42'')))))"
           and ?w1.0 = "emit (Fetch COMPLETIONS_URL) (example_world Absent
                      (always (example_response 200 (Inr (completion_body (Num ''42''))))))"
           and response = "example_response 200 (Inr (completion_body (Num ''42'')))"
           and body = "completion_body (Num ''42'')"]
      example_fetch_200 [of COMPLETIONS_URL Absent] example_prompt_valid
    by (simp add: example_prompt_request_def ok_def example_response_def completion_body_def
        first_content_def)
  moreover have "fst (index_callTool (\<lambda>models. ''[]'') (example_prompt_request 5)
          (example_world Absent (always (example_response 200 (Inr (completion_body Undefined))))))
     = \<lparr>isError = False, result_text = Undefined\<rparr>"
    by (simp add: index_callTool_def index_tool_body_def index_prompt_def index_content_def
        example_prompt_request_def example_world_def always_def example_response_def
        completion_body_def)
  ultimately show ?thesis by simp
qed

text \<open>
  C8, amended. The handler always returns a result. Every error thrown by either tool
  becomes a result flagged \<open>isError\<close> whose text is the string \<open>Error: \<close> followed by the
  error's message: so for a failed or rate-limited fetch, a catalog status outside 2xx
  (\<open>OpenRouter API error: \<close> with status and reason), a completion status outside 2xx
  (\<open>OpenRouter API Error: \<close> with the upstream message, or \<open>HTTP error \<close> and the status)
  and a body that is not JSON. A tool name other than \<open>list_models\<close> and \<open>prompt\<close> gives
  \<open>Error: Unknown tool: \<close> followed by the name, and changes nothing. The text of every
  error result and of every listing is a string; the text of a successful \<open>prompt\<close> is the
  completion content as received. The standalone server converts its errors and answers
  an unknown tool in the same way.
\<close>

theorem callTool_converts_failures:
  "(tool_body request w = (Inl e, w1) \<longrightarrow>
      callTool request w =
        (\<lparr>isError = True, result_text = Str (''Error: '' @ err_message e)\<rparr>, w1))
 \<and> (name request \<noteq> ''list_models'' \<and> name request \<noteq> ''prompt'' \<longrightarrow>
      callTool request w =
        (\<lparr>isError = True, result_text = Str (''Error: Unknown tool: '' @ name request)\<rparr>, w))
 \<and> (name request = ''list_models''
      \<and> (truthy (arg (arguments request) ''forceRefresh'') \<and> w1 = w
          \<or> \<not> truthy (arg (arguments request) ''forceRefresh'')
            \<and> getCachedModels w = (None, w1))
      \<and> fetchWithRetry MODELS_URL 2 w1 = (Inl e, w2) \<longrightarrow>
      callTool request w =
        (\<lparr>isError = True, result_text = Str (''Error: '' @ err_message e)\<rparr>, w2))
 \<and> (name request = ''list_models''
      \<and> (truthy (arg (arguments request) ''forceRefresh'') \<and> w1 = w
          \<or> \<not> truthy (arg (arguments request) ''forceRefresh'')
            \<and> getCachedModels w = (None, w1))
      \<and> fetchWithRetry MODELS_URL 2 w1 = (Inr response, w2) \<and> \<not> ok response \<longrightarrow>
      callTool request w =
        (\<lparr>isError = True,
          result_text = Str (''Error: OpenRouter API error: '' @ show_nat (status response)
                             @ '' '' @ statusText response)\<rparr>, w2))
 \<and> (name request = ''list_models''
      \<and> (truthy (arg (arguments request) ''forceRefresh'') \<and> w1 = w
          \<or> \<not> truthy (arg (arguments request) ''forceRefresh'')
            \<and> getCachedModels w = (None, w1))
      \<and> fetchWithRetry MODELS_URL 2 w1 = (Inr response, w2) \<and> ok response
      \<and> json response = Inl e \<longrightarrow>
      callTool request w =
        (\<lparr>isError = True, result_text = Str (''Error: '' @ err_message e)\<rparr>, w2))
 \<and> (name request = ''prompt'' \<and> arguments request = Some m
      \<and> validateInput (arg (Some m) ''modelId'') (arg (Some m) ''prompt'') = Inr ()
      \<and> fetchWithRetry COMPLETIONS_URL 2 w = (Inl e, w1) \<longrightarrow>
      callTool request w =
        (\<lparr>isError = True, result_text = Str (''Error: '' @ err_message e)\<rparr>, w1))
 \<and> (name request = ''prompt'' \<and> arguments request = Some m
      \<and> validateInput (arg (Some m) ''modelId'') (arg (Some m) ''prompt'') = Inr ()
      \<and> fetchWithRetry COMPLETIONS_URL 2 w = (Inr response, w1) \<and> \<not> ok response \<longrightarrow>
      callTool request w =
        (\<lparr>isError = True,
          result_text = Str (''Error: OpenRouter API Error: ''
            @ (case json response of
                 Inl x \<Rightarrow> ''HTTP error '' @ show_nat (status response)
               | Inr body \<Rightarrow>
                   (case error body of
                      None \<Rightarrow> ''HTTP error '' @ show_nat (status response)
                    | Some err \<Rightarrow>
                        if error_message err = []
                        then ''HTTP error '' @ show_nat (status response)
                        else error_message err)))\<rparr>, w1))
 \<and> (name request = ''prompt'' \<and> arguments request = Some m
      \<and> validateInput (arg (Some m) ''modelId'') (arg (Some m) ''prompt'') = Inr ()
      \<and> fetchWithRetry COMPLETIONS_URL 2 w = (Inr response, w1) \<and> ok response
      \<and> json response = Inl e \<longrightarrow>
      callTool request w =
        (\<lparr>isError = True, result_text = Str (''Error: '' @ err_message e)\<rparr>, w1))
 \<and> (isError (fst (callTool request w)) \<longrightarrow>
      (\<exists>x. fst (tool_body request w) = Inl x
           \<and> result_text (fst (callTool request w)) = Str (''Error: '' @ err_message x)))
 \<and> (is_string (result_text (fst (callTool request w)))
      \<or> name request = ''prompt'' \<and> \<not> isError (fst (callTool request w)))
 \<and> (index_tool_body stringify request w = (Inl e, w1) \<longrightarrow>
      index_callTool stringify request w =
        (\<lparr>isError = True, result_text = Str (''Error: '' @ err_message e)\<rparr>, w1))
 \<and> (name request \<noteq> ''list_models'' \<and> name request \<noteq> ''prompt'' \<longrightarrow>
      index_callTool stringify request w =
        (\<lparr>isError = True, result_text = Str (''Error: Unknown tool: '' @ name request)\<rparr>, w))
 \<and> (name request = ''list_models'' \<and> net w 0 = Rejects e \<longrightarrow>
      index_callTool stringify request w =
        (\<lparr>isError = True, result_text = Str (''Error: '' @ err_message e)\<rparr>,
         emit (Fetch MODELS_URL) w))
 \<and> (name request = ''prompt'' \<and> arguments request = Some m \<and> net w 0 = Rejects e \<longrightarrow>
      index_callTool stringify request w =
        (\<lparr>isError = True, result_text = Str (''Error: '' @ err_message e)\<rparr>,
         emit (Fetch COMPLETIONS_URL) w))
 \<and> (name request = ''prompt'' \<and> arguments request = Some m \<and> net w 0 = Resolves response
      \<and> json response = Inr body \<and> error body = Some err \<longrightarrow>
      index_callTool stringify request w =
        (\<lparr>isError = True, result_text = Str (''Error: '' @ error_message err)\<rparr>,
         emit (Fetch COMPLETIONS_URL) w))"
proof (intro conjI impI)
  show "callTool request w =
          (\<lparr>isError = True, result_text = Str (''Error: '' @ err_message e)\<rparr>, w1)"
    if "tool_body request w = (Inl e, w1)"
    using that by (rule callTool_caught)
  show "callTool request w =
          (\<lparr>isError = True, result_text = Str (''Error: Unknown tool: '' @ name request)\<rparr>, w)"
    if "name request \<noteq> ''list_models'' \<and> name request \<noteq> ''prompt''"
    using that unknown_tool(1) by blast
  show "callTool request w =
          (\<lparr>isError = True, result_text = Str (''Error: '' @ err_message e)\<rparr>, w2)"
    if "name request = ''list_models''
      \<and> (truthy (arg (arguments request) ''forceRefresh'') \<and> w1 = w
          \<or> \<not> truthy (arg (arguments request) ''forceRefresh'')
            \<and> getCachedModels w = (None, w1))
      \<and> fetchWithRetry MODELS_URL 2 w1 = (Inl e, w2)"
    using that list_models_fetch_throws [of request w1 w e w2] by blast
  show "callTool request w =
          (\<lparr>isError = True,
            result_text = Str (''Error: OpenRouter API error: '' @ show_nat (status response)
                               @ '' '' @ statusText response)\<rparr>, w2)"
    if "name request = ''list_models''
      \<and> (truthy (arg (arguments request) ''forceRefresh'') \<and> w1 = w
          \<or> \<not> truthy (arg (arguments request) ''forceRefresh'')
            \<and> getCachedModels w = (None, w1))
      \<and> fetchWithRetry MODELS_URL 2 w1 = (Inr response, w2) \<and> \<not> ok response"
    using that list_models_bad_status [of request w1 w response w2] by blast
  show "callTool request w =
          (\<lparr>isError = True, result_text = Str (''Error: '' @ err_message e)\<rparr>, w2)"
    if "name request = ''list_models''
      \<and> (truthy (arg (arguments request) ''forceRefresh'') \<and> w1 = w
          \<or> \<not> truthy (arg (arguments request) ''forceRefresh'')
            \<and> getCachedModels w = (None, w1))
      \<and> fetchWithRetry MODELS_URL 2 w1 = (Inr response, w2) \<and> ok response
      \<and> json response = Inl e"
    using that list_models_bad_body [of request w1 w response w2 e] by blast
  show "callTool request w =
          (\<lparr>isError = True, result_text = Str (''Error: '' @ err_message e)\<rparr>, w1)"
    if "name request = ''prompt'' \<and> arguments request = Some m
      \<and> validateInput (arg (Some m) ''modelId'') (arg (Some m) ''prompt'') = Inr ()
      \<and> fetchWithRetry COMPLETIONS_URL 2 w = (Inl e, w1)"
    using that prompt_fetch_throws [of request m w e w1] by blast
  show "callTool request w =
        (\<lparr>isError = True,
          result_text = Str (''Error: OpenRouter API Error: ''
            @ (case json response of
                 Inl x \<Rightarrow> ''HTTP error '' @ show_nat (status response)
               | Inr body \<Rightarrow>
                   (case error body of
                      None \<Rightarrow> ''HTTP error '' @ show_nat (status response)
                    | Some err \<Rightarrow>
                        if error_message err = []
                        then ''HTTP error '' @ show_nat (status response)
                        else error_message err)))\<rparr>, w1)"
    if "name request = ''prompt'' \<and> arguments request = Some m
      \<and> validateInput (arg (Some m) ''modelId'') (arg (Some m) ''prompt'') = Inr ()
      \<and> fetchWithRetry COMPLETIONS_URL 2 w = (Inr response, w1) \<and> \<not> ok response"
    using that prompt_bad_status [of request m w response w1] by blast
  show "callTool request w =
          (\<lparr>isError = True, result_text = Str (''Error: '' @ err_message e)\<rparr>, w1)"
    if "name request = ''prompt'' \<and> arguments request = Some m
      \<and> validateInput (arg (Some m) ''modelId'') (arg (Some m) ''prompt'') = Inr ()
      \<and> fetchWithRetry COMPLETIONS_URL 2 w = (Inr response, w1) \<and> ok response
      \<and> json response = Inl e"
    using that prompt_bad_body [of request m w response w1 e] by blast
  show "\<exists>x. fst (tool_body request w) = Inl x
           \<and> result_text (fst (callTool request w)) = Str (''Error: '' @ err_message x)"
    if "isError (fst (callTool request w))"
    using that by (rule callTool_error_text)
  show "is_string (result_text (fst (callTool request w)))
      \<or> name request = ''prompt'' \<and> \<not> isError (fst (callTool request w))"
    by (rule callTool_text_string)
  show "index_callTool stringify request w =
          (\<lparr>isError = True, result_text = Str (''Error: '' @ err_message e)\<rparr>, w1)"
    if "index_tool_body stringify request w = (Inl e, w1)"
    using that by (rule index_callTool_caught)
  show "index_callTool stringify request w =
          (\<lparr>isError = True, result_text = Str (''Error: Unknown tool: '' @ name request)\<rparr>, w)"
    if "name request \<noteq> ''list_models'' \<and> name request \<noteq> ''prompt''"
    using that unknown_tool(2) by blast
  show "index_callTool stringify request w =
          (\<lparr>isError = True, result_text = Str (''Error: '' @ err_message e)\<rparr>,
           emit (Fetch MODELS_URL) w)"
    if "name request = ''list_models'' \<and> net w 0 = Rejects e"
    using that index_list_rejected [of request w e] by blast
  show "index_callTool stringify request w =
          (\<lparr>isError = True, result_text = Str (''Error: '' @ err_message e)\<rparr>,
           emit (Fetch COMPLETIONS_URL) w)"
    if "name request = ''prompt'' \<and> arguments request = Some m \<and> net w 0 = Rejects e"
    using that index_prompt_rejected [of request m w e] by blast
  show "index_callTool stringify request w =
          (\<lparr>isError = True, result_text = Str (''Error: '' @ error_message err)\<rparr>,
           emit (Fetch COMPLETIONS_URL) w)"
    if "name request = ''prompt'' \<and> arguments request = Some m \<and> net w 0 = Resolves response
      \<and> json response = Inr body \<and> error body = Some err"
    using that index_prompt_error_body [of request m w response body err] by blast
qed


lemma cached_world_503:
  "fetchWithRetry MODELS_URL 2 cached_world
     = (Inr (example_response 503 not_json),
        cached_world\<lparr>trace := [Fetch MODELS_URL, Sleep 1000, Fetch MODELS_URL, Sleep 2000,
                                Fetch MODELS_URL]\<rparr>)"
  by (simp add: fetchWithRetry_def for_attempt.simps cached_world_def example_world_def
      always_def example_response_def emit_def)

lemma example_fetch_404:
  "fetchWithRetry url 2 (example_world c (always (example_response 404 b)))
     = (Inr (example_response 404 b),
        emit (Fetch url) (example_world c (always (example_response 404 b))))"
  by (simp add: fetchWithRetry_def for_attempt.simps example_world_def always_def
      example_response_def)

theorem callTool_converts_failures_witness:
  "callTool refresh_request cached_world
     = (\<lparr>isError = True, result_text = Str ''Error: OpenRouter API error: 503 status text''\<rparr>,
        cached_world\<lparr>trace := [Fetch MODELS_URL, Sleep 1000, Fetch MODELS_URL, Sleep 2000,
                                Fetch MODELS_URL]\<rparr>)
   \<and> callTool (example_prompt_request 5)
        (example_world Absent (always (example_response 404 (Inr (error_body ''No such model'')))))
     = (\<lparr>isError = True, result_text = Str ''Error: OpenRouter API Error: No such model''\<rparr>,
        emit (Fetch COMPLETIONS_URL)
          (example_world Absent
             (always (example_response 404 (Inr (error_body ''No such model''))))))
   \<and> callTool \<lparr>name = ''delete_model'', arguments = None\<rparr> cached_world
     = (\<lparr>isError = True, result_text = Str ''Error: Unknown tool: delete_model''\<rparr>, cached_world)
   \<and> index_callTool (\<lambda>models. ''[]'') (example_prompt_request 5)
        (example_world Absent (always (example_response 401 (Inr (error_body ''No auth'')))))
     = (\<lparr>isError = True, result_text = Str ''Error: No auth''\<rparr>,
        emit (Fetch COMPLETIONS_URL)
          (example_world Absent (always (example_response 401 (Inr (error_body ''No auth''))))))
   \<and> index_callTool (\<lambda>models. ''[]'') \<lparr>name = ''delete_model'', arguments = None\<rparr> cached_world
     = (\<lparr>isError = True, result_text = Str ''Error: Unknown tool: delete_model''\<rparr>, cached_world)"
  using callTool_converts_failures
      [where request = refresh_request and w = cached_world and ?w1.0 = cached_world
         and ?w2.0 = "cached_world\<lparr>trace := [Fetch MODELS_URL, Sleep 1000, Fetch MODELS_URL,
                                               Sleep 2000, Fetch MODELS_URL]\<rparr>"
         and response = "example_response 503 not_json"
         and e = "Error ''x''" and m = "Map.empty" and body = "error_body ''x''"
         and err = "\<lparr>error_message = ''x'', error_code = None\<rparr>"
         and stringify = "\<lambda>models. ''[]''"]
    callTool_converts_failures
      [where request = "example_prompt_request 5"
         and w = "example_world Absent
                    (always (example_response 404 (Inr (error_body ''No such model''))))"
         and ?w1.0 = "emit (Fetch COMPLETIONS_URL) (example_world Absent
                    (always (example_response 404 (Inr (error_body ''No such model'')))))"
         and ?w2.0 = cached_world
         and response = "example_response 404 (Inr (error_body ''No such model''))"
         and e = "Error ''x''"
         and m = "[''modelId'' \<mapsto> Str ''openai/gpt-4o'', ''prompt'' \<mapsto> Str (replicate 5 CHR ''a'')]"
         and body = "error_body ''x''"
         and err = "\<lparr>error_message = ''x'', error_code = None\<rparr>"
         and stringify = "\<lambda>models. ''[]''"]
    callTool_converts_failures
      [where request = "\<lparr>name = ''delete_model'', arguments = None\<rparr>" and w = cached_world
         and ?w1.0 = cached_world and ?w2.0 = cached_world
         and response = "example_response 503 not_json"
         and e = "Error ''x''" and m = "Map.empty" and body = "error_body ''x''"
         and err = "\<lparr>error_message = ''x'', error_code = None\<rparr>"
         and stringify = "\<lambda>models. ''[]''"]
    callTool_converts_failures
      [where request = "example_prompt_request 5"
         and w = "example_world Absent (always (example_response 401 (Inr (error_body ''No auth''))))"
         and ?w1.0 = cached_world and ?w2.0 = cached_world
         and response = "example_response 401 (Inr (error_body ''No auth''))"
         and e = "Error ''x''"
         and m = "[''modelId'' \<mapsto> Str ''openai/gpt-4o'', ''prompt'' \<mapsto> Str (replicate 5 CHR ''a'')]"
         and body = "error_body ''No auth''"
         and err = "\<lparr>error_message = ''No auth'', error_code = None\<rparr>"
         and stringify = "\<lambda>models. ''[]''"]
    cached_world_503 example_fetch_404 [of COMPLETIONS_URL Absent] example_prompt_valid
  by (simp add: refresh_request_def arg_def ok_def example_response_def error_body_def
      example_prompt_request_def show_nat.simps digit_def example_world_def always_def
      not_json_def)

end
